theory Spec2Isabelle
  imports Main "HOL-Library.Multiset"
begin

section \<open>Python values and exceptions\<close>

text \<open>
  The values that travel between the browser and \<^verbatim>\<open>instrumented.py\<close> are decoded JSON:
  \<^verbatim>\<open>None\<close>, booleans, integers, strings, lists and dicts. A dict is an association
  list whose order is the iteration order; keys are looked up with \<open>map_of\<close>.
  Floating point numbers are left out.
\<close>

datatype json =
    JNull
  | JBool bool
  | JInt int
  | JStr string
  | JList "json list"
  | JObj "(string \<times> json) list"

text \<open>The exceptions raised by the modelled code, all subclasses of \<^verbatim>\<open>Exception\<close>.
  \<open>External\<close> is an exception raised inside a collaborator (proxy, process, connection).\<close>

datatype exn =
    AttributeError
  | TypeError
  | KeyError
  | AssertionError
  | EventTimeout string
  | EventException string
  | InstrumentedChromeException string
  | External string

text \<open>Python's \<^verbatim>\<open>==\<close> on decoded JSON: \<^verbatim>\<open>True == 1\<close>, lists compare pointwise,
  dicts compare as mappings (same number of keys, equal value under every key).\<close>

fun py_eq :: "json \<Rightarrow> json \<Rightarrow> bool"
  and py_eq_list :: "json list \<Rightarrow> json list \<Rightarrow> bool"
  and py_dict_le :: "(string \<times> json) list \<Rightarrow> (string \<times> json) list \<Rightarrow> bool"
where
  "py_eq JNull JNull = True"
| "py_eq (JBool a) (JBool b) = (a = b)"
| "py_eq (JBool a) (JInt b) = ((if a then 1 else 0) = b)"
| "py_eq (JInt a) (JBool b) = (a = (if b then 1 else 0))"
| "py_eq (JInt a) (JInt b) = (a = b)"
| "py_eq (JStr a) (JStr b) = (a = b)"
| "py_eq (JList a) (JList b) = py_eq_list a b"
| "py_eq (JObj a) (JObj b) = (length a = length b \<and> py_dict_le a b)"
| "py_eq _ _ = False"
| "py_eq_list [] [] = True"
| "py_eq_list (x # xs) (y # ys) = (py_eq x y \<and> py_eq_list xs ys)"
| "py_eq_list _ _ = False"
| "py_dict_le [] b = True"
| "py_dict_le ((k, v) # kvs) b =
     ((case map_of b k of None \<Rightarrow> False | Some w \<Rightarrow> py_eq v w) \<and> py_dict_le kvs b)"

text \<open>\<^verbatim>\<open>needle in haystack\<close> for two strings: a contiguous occurrence.\<close>

fun py_substring :: "string \<Rightarrow> string \<Rightarrow> bool" where
  "py_substring k [] = (k = [])"
| "py_substring k (c # cs) = (take (length k) (c # cs) = k \<or> py_substring k cs)"

text \<open>\<^verbatim>\<open>'key' in x\<close> with a string key: key membership for a dict, element membership
  for a list, substring for a string, TypeError for anything that is not a container.\<close>

fun py_in :: "string \<Rightarrow> json \<Rightarrow> exn + bool" where
  "py_in k (JObj kvs) = Inr (map_of kvs k \<noteq> None)"
| "py_in k (JList xs) = Inr (list_ex (py_eq (JStr k)) xs)"
| "py_in k (JStr s) = Inr (py_substring k s)"
| "py_in k JNull = Inl TypeError"
| "py_in k (JBool b) = Inl TypeError"
| "py_in k (JInt i) = Inl TypeError"

text \<open>\<^verbatim>\<open>x['key']\<close> with a string key: the value or KeyError for a dict, TypeError for
  every other value (lists and strings take integer indices only).\<close>

fun py_getitem :: "json \<Rightarrow> string \<Rightarrow> exn + json" where
  "py_getitem (JObj kvs) k = (case map_of kvs k of None \<Rightarrow> Inl KeyError | Some v \<Rightarrow> Inr v)"
| "py_getitem (JList xs) k = Inl TypeError"
| "py_getitem (JStr s) k = Inl TypeError"
| "py_getitem JNull k = Inl TypeError"
| "py_getitem (JBool b) k = Inl TypeError"
| "py_getitem (JInt i) k = Inl TypeError"

section \<open>The controller object\<close>

datatype page_state = PAGE_STATE_NONE | PAGE_STATE_LOADING | PAGE_STATE_LOADED

text \<open>An attribute that refers to a collaborator: never assigned (\<^verbatim>\<open>__init__\<close> stopped
  before it), assigned \<^verbatim>\<open>None\<close> (by \<^verbatim>\<open>terminate\<close>), or a live object.\<close>

datatype attr = Unset | IsNone | Live

text \<open>The calls on collaborators that the properties below talk about, recorded in the
  order they are made: the teardown calls, the installation of the dialog handler, the
  protocol commands (\<open>Send m ps\<close> is the command \<open>m\<close> with keyword parameters \<open>ps\<close>) and
  the lines handed to the output manager (\<open>Debug\<close> carries the format string, without its
  arguments).\<close>

datatype ext_call =
    ProxyStop
  | ConnClose
  | ProcessTerminate
  | SetDialogHandler
  | Send string "(string \<times> json) list"
  | Debug string

text \<open>The four event flags hold \<^verbatim>\<open>None\<close>, \<^verbatim>\<open>True\<close> or \<^verbatim>\<open>False\<close>.\<close>

record chrome =
  frame_stopped_loading_event :: "bool option"
  frame_scheduled_navigation :: "bool option"
  network_almost_idle_event :: "bool option"
  execution_context_created :: "bool option"
  page_state :: page_state
  proxy :: attr
  chrome_process :: attr
  chrome_conn :: attr
  trace :: "ext_call list"

text \<open>Truth value of a flag in a condition: only \<^verbatim>\<open>True\<close> is truthy.\<close>

definition truthy :: "bool option \<Rightarrow> bool" where
  "truthy f = (f = Some True)"

section \<open>The page state handler\<close>

definition navigator_started_handler :: "json \<Rightarrow> chrome \<Rightarrow> exn option \<times> chrome" where
  "navigator_started_handler message self =
     (case py_in ''method'' message of
        Inl e \<Rightarrow> (Some e, self)
      | Inr has_method \<Rightarrow>
          if \<not> has_method then (None, self)
          else (case py_getitem message ''method'' of
                  Inl e \<Rightarrow> (Some e, self)
                | Inr m \<Rightarrow>
                    if py_eq m (JStr ''Page.frameScheduledNavigation'') then
                      (None, self\<lparr>frame_scheduled_navigation := Some True,
                                   frame_stopped_loading_event := Some False,
                                   network_almost_idle_event := Some False,
                                   execution_context_created := Some False,
                                   page_state := PAGE_STATE_LOADING\<rparr>)
                    else (None, self)))"

text \<open>The last statement of \<^verbatim>\<open>_load_url_finished_handler\<close>, reached by every path that
  does not return early.\<close>

definition check_all_received :: "chrome \<Rightarrow> chrome" where
  "check_all_received self =
     (if truthy (network_almost_idle_event self) \<and> truthy (frame_stopped_loading_event self)
         \<and> truthy (execution_context_created self)
      then self\<lparr>page_state := PAGE_STATE_LOADED\<rparr> else self)"

definition load_url_finished_handler :: "json \<Rightarrow> chrome \<Rightarrow> exn option \<times> chrome" where
  "load_url_finished_handler message self =
     (case py_in ''method'' message of
        Inl e \<Rightarrow> (Some e, self)
      | Inr has_method \<Rightarrow>
          if \<not> has_method then (None, self)
          else (case py_getitem message ''method'' of
             Inl e \<Rightarrow> (Some e, self)
           | Inr m \<Rightarrow>
               if py_eq m (JStr ''Page.frameStoppedLoading'') then
                 (None, check_all_received
                    (self\<lparr>frame_scheduled_navigation := Some False,
                           frame_stopped_loading_event := Some True\<rparr>))
               else if py_eq m (JStr ''Page.lifecycleEvent'') then
                 (case py_in ''params'' message of
                    Inl e \<Rightarrow> (Some e, self)
                  | Inr has_params \<Rightarrow>
                      if \<not> has_params then (None, self)
                      else (case py_getitem message ''params'' of
                         Inl e \<Rightarrow> (Some e, self)
                       | Inr params \<Rightarrow>
                          (case py_in ''name'' params of
                             Inl e \<Rightarrow> (Some e, self)
                           | Inr has_name \<Rightarrow>
                               if \<not> has_name then (None, self)
                               else (case py_getitem params ''name'' of
                                  Inl e \<Rightarrow> (Some e, self)
                                | Inr n \<Rightarrow>
                                    if py_eq n (JStr ''networkAlmostIdle'') then
                                      (None, check_all_received
                                         (self\<lparr>frame_scheduled_navigation := Some False,
                                                network_almost_idle_event := Some True\<rparr>))
                                    else (None, check_all_received self)))))
               else if py_eq m (JStr ''Runtime.executionContextCreated'') then
                 (None, check_all_received
                    (self\<lparr>frame_scheduled_navigation := Some False,
                           execution_context_created := Some True\<rparr>))
               else (None, check_all_received self)))"

definition page_state_handler :: "json \<Rightarrow> chrome \<Rightarrow> exn option \<times> chrome" where
  "page_state_handler message self =
     (case navigator_started_handler message self of
        (Some e, self') \<Rightarrow> (Some e, self')
      | (None, self') \<Rightarrow> load_url_finished_handler message self')"

text \<open>Events are delivered one after the other; an exception of the handler ends the
  delivery.\<close>

fun process_events :: "json list \<Rightarrow> chrome \<Rightarrow> exn option \<times> chrome" where
  "process_events [] self = (None, self)"
| "process_events (m # ms) self =
     (case page_state_handler m self of
        (Some e, self') \<Rightarrow> (Some e, self')
      | (None, self') \<Rightarrow> process_events ms self')"


text \<open>The object as \<^verbatim>\<open>__init__\<close> has it after its first assignments, before any
  collaborator is started.\<close>

definition new_chrome :: chrome where
  "new_chrome =
     \<lparr>frame_stopped_loading_event = None,
      frame_scheduled_navigation = None,
      network_almost_idle_event = None,
      execution_context_created = None,
      page_state = PAGE_STATE_NONE,
      proxy = Unset,
      chrome_process = Unset,
      chrome_conn = Unset,
      trace = []\<rparr>"

subsection \<open>The shapes of the four events the handler reacts to\<close>

definition is_navigation_scheduled :: "json \<Rightarrow> bool" where
  "is_navigation_scheduled m =
     (py_getitem m ''method'' = Inr (JStr ''Page.frameScheduledNavigation''))"

definition is_frame_stopped_loading :: "json \<Rightarrow> bool" where
  "is_frame_stopped_loading m =
     (py_getitem m ''method'' = Inr (JStr ''Page.frameStoppedLoading''))"

definition is_network_almost_idle :: "json \<Rightarrow> bool" where
  "is_network_almost_idle m =
     (py_getitem m ''method'' = Inr (JStr ''Page.lifecycleEvent'') \<and>
      (case py_getitem m ''params'' of
         Inl e \<Rightarrow> False
       | Inr p \<Rightarrow> py_getitem p ''name'' = Inr (JStr ''networkAlmostIdle'')))"

definition is_execution_context_created :: "json \<Rightarrow> bool" where
  "is_execution_context_created m =
     (py_getitem m ''method'' = Inr (JStr ''Runtime.executionContextCreated''))"

text \<open>Example messages, as the browser sends them.\<close>

definition ev_navigation_scheduled :: json where
  "ev_navigation_scheduled =
     JObj [(''method'', JStr ''Page.frameScheduledNavigation''),
           (''params'', JObj [(''frameId'', JStr ''F1''), (''delay'', JInt 0)])]"

definition ev_frame_stopped_loading :: json where
  "ev_frame_stopped_loading =
     JObj [(''method'', JStr ''Page.frameStoppedLoading''),
           (''params'', JObj [(''frameId'', JStr ''F1'')])]"

definition ev_network_almost_idle :: json where
  "ev_network_almost_idle =
     JObj [(''method'', JStr ''Page.lifecycleEvent''),
           (''params'', JObj [(''frameId'', JStr ''F1''), (''name'', JStr ''networkAlmostIdle'')])]"

definition ev_execution_context_created :: json where
  "ev_execution_context_created =
     JObj [(''method'', JStr ''Runtime.executionContextCreated''),
           (''params'', JObj [(''context'', JObj [(''id'', JInt 1)])])]"

text \<open>The state all six orderings end in: every flag set, the navigation no longer
  scheduled, the page loaded.\<close>

definition loaded_after_navigation :: "chrome \<Rightarrow> chrome" where
  "loaded_after_navigation s =
     s\<lparr>frame_scheduled_navigation := Some False,
       frame_stopped_loading_event := Some True,
       network_almost_idle_event := Some True,
       execution_context_created := Some True,
       page_state := PAGE_STATE_LOADED\<rparr>"

text \<open>The three flags the handler joins, and the states its branches produce.\<close>

definition all_received :: "chrome \<Rightarrow> bool" where
  "all_received self =
     (truthy (network_almost_idle_event self) \<and> truthy (frame_stopped_loading_event self)
      \<and> truthy (execution_context_created self))"

definition navigation_reset :: "chrome \<Rightarrow> chrome" where
  "navigation_reset self =
     self\<lparr>frame_scheduled_navigation := Some True,
          frame_stopped_loading_event := Some False,
          network_almost_idle_event := Some False,
          execution_context_created := Some False,
          page_state := PAGE_STATE_LOADING\<rparr>"

definition stopped_set :: "chrome \<Rightarrow> chrome" where
  "stopped_set s =
     s\<lparr>frame_scheduled_navigation := Some False, frame_stopped_loading_event := Some True\<rparr>"

definition idle_set :: "chrome \<Rightarrow> chrome" where
  "idle_set s =
     s\<lparr>frame_scheduled_navigation := Some False, network_almost_idle_event := Some True\<rparr>"

definition context_set :: "chrome \<Rightarrow> chrome" where
  "context_set s =
     s\<lparr>frame_scheduled_navigation := Some False, execution_context_created := Some True\<rparr>"

subsection \<open>Messages the handler does not react to\<close>

text \<open>A message object without a \<^verbatim>\<open>method\<close> field.\<close>

definition missing_method :: "json \<Rightarrow> bool" where
  "missing_method m =
     (case m of
        JObj kvs \<Rightarrow> map_of kvs ''method'' = None
      | _ \<Rightarrow> False)"

text \<open>A lifecycle event that has no \<^verbatim>\<open>params\<close> field, or whose \<^verbatim>\<open>params\<close> is an object
  without a \<^verbatim>\<open>name\<close> field.\<close>

definition lifecycle_missing_params_or_name :: "json \<Rightarrow> bool" where
  "lifecycle_missing_params_or_name m =
     (case m of
        JObj kvs \<Rightarrow>
          map_of kvs ''method'' = Some (JStr ''Page.lifecycleEvent'') \<and>
          (case map_of kvs ''params'' of
             None \<Rightarrow> True
           | Some (JObj ps) \<Rightarrow> map_of ps ''name'' = None
           | Some _ \<Rightarrow> False)
      | _ \<Rightarrow> False)"

text \<open>A lifecycle event whose \<^verbatim>\<open>params\<close> field is there but is not an object.\<close>

definition lifecycle_params_not_object :: "json \<Rightarrow> bool" where
  "lifecycle_params_not_object m =
     (case m of
        JObj kvs \<Rightarrow>
          map_of kvs ''method'' = Some (JStr ''Page.lifecycleEvent'') \<and>
          (case map_of kvs ''params'' of
             None \<Rightarrow> False
           | Some (JObj ps) \<Rightarrow> False
           | Some _ \<Rightarrow> True)
      | _ \<Rightarrow> False)"

definition recognized_methods :: "json list" where
  "recognized_methods =
     [JStr ''Page.frameScheduledNavigation'', JStr ''Page.frameStoppedLoading'',
      JStr ''Page.lifecycleEvent'', JStr ''Runtime.executionContextCreated'']"

definition unrecognized_method :: "json \<Rightarrow> bool" where
  "unrecognized_method m =
     (case py_getitem m ''method'' of
        Inl e \<Rightarrow> False
      | Inr v \<Rightarrow> v \<notin> set recognized_methods)"

section \<open>Commands and public operations\<close>

definition PAGE_LOAD_TIMEOUT :: int where
  "PAGE_LOAD_TIMEOUT = 10"

text \<open>\<^verbatim>\<open>self.chrome_conn.Domain.command(**params)\<close>: the attribute access raises
  AttributeError when the connection was never assigned or is \<^verbatim>\<open>None\<close>; a live
  connection takes the command. The response is not used by the callers below.\<close>

definition conn_send :: "string \<Rightarrow> (string \<times> json) list \<Rightarrow> chrome \<Rightarrow> exn option \<times> chrome" where
  "conn_send cmd params self =
     (case chrome_conn self of
        Live \<Rightarrow> (None, self\<lparr>trace := trace self @ [Send cmd params]\<rparr>)
      | IsNone \<Rightarrow> (Some AttributeError, self)
      | Unset \<Rightarrow> (Some AttributeError, self))"

definition set_dialog_handler :: "chrome \<Rightarrow> exn option \<times> chrome" where
  "set_dialog_handler self =
     (case chrome_conn self of
        Live \<Rightarrow> (None, self\<lparr>trace := trace self @ [SetDialogHandler]\<rparr>)
      | IsNone \<Rightarrow> (Some AttributeError, self)
      | Unset \<Rightarrow> (Some AttributeError, self))"

text \<open>Statements run one after the other; an exception ends the method.\<close>

fun statements :: "(chrome \<Rightarrow> exn option \<times> chrome) list \<Rightarrow> chrome \<Rightarrow> exn option \<times> chrome" where
  "statements [] self = (None, self)"
| "statements (f # fs) self =
     (case f self of
        (Some e, self') \<Rightarrow> (Some e, self')
      | (None, self') \<Rightarrow> statements fs self')"

text \<open>\<open>source\<close> is the text \<^verbatim>\<open>get_dom_analyzer_source\<close> reads from the JavaScript files.\<close>

definition set_chrome_settings :: "string \<Rightarrow> chrome \<Rightarrow> exn option \<times> chrome" where
  "set_chrome_settings source =
     statements
       [conn_send ''Security.setIgnoreCertificateErrors'' [(''ignore'', JBool True)],
        conn_send ''Page.setBypassCSP'' [(''enabled'', JBool False)],
        conn_send ''Page.setDownloadBehavior'' [(''behavior'', JStr ''deny'')],
        conn_send ''Page.addScriptToEvaluateOnNewDocument'' [(''source'', JStr source)],
        set_dialog_handler,
        conn_send ''Page.enable'' [],
        conn_send ''Page.setLifecycleEventsEnabled'' [(''enabled'', JBool True)],
        conn_send ''Runtime.enable'' []]"

text \<open>\<^verbatim>\<open>__init__\<close>: the collaborators are started in turn and each attribute is assigned
  only when its start succeeded. The parameters say how the collaborators behave:
  an exception of \<^verbatim>\<open>start_proxy\<close>, an exception of \<^verbatim>\<open>start_chrome_process\<close>, and
  whether the connection is refused (a ConnectionError, which \<^verbatim>\<open>connect_to_chrome\<close>
  turns into InstrumentedChromeException).\<close>

definition init :: "exn option \<Rightarrow> exn option \<Rightarrow> bool \<Rightarrow> string \<Rightarrow> exn option \<times> chrome" where
  "init proxy_failure process_failure connection_refused source =
     (case proxy_failure of
        Some e \<Rightarrow> (Some e, new_chrome)
      | None \<Rightarrow>
         (case process_failure of
            Some e \<Rightarrow> (Some e, new_chrome\<lparr>proxy := Live\<rparr>)
          | None \<Rightarrow>
              if connection_refused then
                (Some (InstrumentedChromeException ''Failed to connect to Chrome on port %s''),
                 new_chrome\<lparr>proxy := Live, chrome_process := Live\<rparr>)
              else set_chrome_settings source
                 (new_chrome\<lparr>proxy := Live, chrome_process := Live, chrome_conn := Live\<rparr>)))"

definition load_url :: "string \<Rightarrow> chrome \<Rightarrow> exn option \<times> chrome" where
  "load_url url self =
     conn_send ''Page.navigate'' [(''url'', JStr url), (''timeout'', JInt PAGE_LOAD_TIMEOUT)]
       (self\<lparr>page_state := PAGE_STATE_LOADING\<rparr>)"

definition navigate_to_history_index :: "int \<Rightarrow> chrome \<Rightarrow> exn option \<times> chrome" where
  "navigate_to_history_index index self =
     conn_send ''Page.navigateToHistoryEntry'' [(''entryId'', JInt index)]
       (self\<lparr>page_state := PAGE_STATE_LOADING\<rparr>)"

definition stop :: "chrome \<Rightarrow> exn option \<times> chrome" where
  "stop self = conn_send ''Page.stopLoading'' [] (self\<lparr>page_state := PAGE_STATE_LOADED\<rparr>)"

text \<open>What a caller and the browser can do to the controller, and the states they reach.
  A caller may go on using the object after an exception, so \<open>run\<close> keeps the state an
  operation leaves behind whether it raised or not.\<close>

datatype operation =
    LoadUrl string
  | NavigateToHistoryIndex int
  | Stop
  | Event json

fun perform :: "operation \<Rightarrow> chrome \<Rightarrow> exn option \<times> chrome" where
  "perform (LoadUrl url) self = load_url url self"
| "perform (NavigateToHistoryIndex i) self = navigate_to_history_index i self"
| "perform Stop self = stop self"
| "perform (Event m) self = page_state_handler m self"

fun run :: "operation list \<Rightarrow> chrome \<Rightarrow> chrome" where
  "run [] self = self"
| "run (op # ops) self = run ops (snd (perform op self))"



text \<open>A controller whose construction succeeded.\<close>

definition constructed :: chrome where
  "constructed = snd (init None None False ''window._DOMAnalyzer = {};'')"

subsection \<open>Teardown\<close>

text \<open>\<^verbatim>\<open>__str__\<close>, which the first line of \<^verbatim>\<open>terminate\<close> calls to format its log message,
  reads \<^verbatim>\<open>self.proxy\<close> and \<^verbatim>\<open>self.chrome_process\<close>; reading an attribute that was never
  assigned raises AttributeError. Only whether it raises is modelled. The getters it
  calls on live collaborators (bind port, devtools port, parent pid) are taken to return.\<close>

definition str_raises :: "chrome \<Rightarrow> exn option" where
  "str_raises self =
     (if proxy self = Unset then Some AttributeError
      else if chrome_process self = Unset then Some AttributeError
      else None)"

text \<open>One guarded step of \<^verbatim>\<open>terminate\<close>:
  \<^verbatim>\<open>try: self.handle.method() except Exception, e: om.out.debug(msg % ...)\<close>.
  \<open>outcome\<close> is what the collaborator's method does when it is called: it returns
  (\<open>None\<close>) or raises. On a handle that is \<^verbatim>\<open>None\<close> or was never assigned the attribute
  access raises AttributeError and no collaborator is called. Either exception is caught
  and logged.\<close>

definition guarded_step :: "attr \<Rightarrow> ext_call \<Rightarrow> exn option \<Rightarrow> string \<Rightarrow> chrome \<Rightarrow> chrome" where
  "guarded_step handle call outcome msg self =
     (case handle of
        Live \<Rightarrow>
          (case outcome of
             None \<Rightarrow> self\<lparr>trace := trace self @ [call]\<rparr>
           | Some e \<Rightarrow> self\<lparr>trace := trace self @ [call, Debug msg]\<rparr>)
      | IsNone \<Rightarrow> self\<lparr>trace := trace self @ [Debug msg]\<rparr>
      | Unset \<Rightarrow> self\<lparr>trace := trace self @ [Debug msg]\<rparr>)"

text \<open>\<^verbatim>\<open>terminate\<close>. The three parameters are the outcomes of \<^verbatim>\<open>proxy.stop()\<close>,
  \<^verbatim>\<open>chrome_conn.close()\<close> and \<^verbatim>\<open>chrome_process.terminate()\<close>. The logging switch around
  the second step (\<^verbatim>\<open>AllLoggingDisabled\<close>) does not touch the controller and is left out.\<close>

definition terminate :: "exn option \<Rightarrow> exn option \<Rightarrow> exn option \<Rightarrow> chrome \<Rightarrow> exn option \<times> chrome" where
  \<open>terminate proxy_stop conn_close process_terminate self =
     (case str_raises self of
        Some e \<Rightarrow> (Some e, self)
      | None \<Rightarrow>
         (let self = self\<lparr>trace := trace self @ [Debug ''Terminating %s (did: %s)'']\<rparr>;
              self = guarded_step (proxy self) ProxyStop proxy_stop
                       ''Failed to stop proxy server, exception: "%s" (did: %s)'' self;
              self = guarded_step (chrome_conn self) ConnClose conn_close
                       ''Failed to close chrome connection, exception: "%s" (did: %s)'' self;
              self = guarded_step (chrome_process self) ProcessTerminate process_terminate
                       ''Failed to terminate chrome process, exception: "%s" (did: %s)'' self
          in (None, self\<lparr>proxy := IsNone, chrome_process := IsNone, chrome_conn := IsNone,
                          page_state := PAGE_STATE_NONE\<rparr>)))\<close>

text \<open>The teardown calls among the calls made since the trace had length \<open>n\<close>.\<close>

fun is_teardown :: "ext_call \<Rightarrow> bool" where
  "is_teardown ProxyStop = True"
| "is_teardown ConnClose = True"
| "is_teardown ProcessTerminate = True"
| "is_teardown SetDialogHandler = False"
| "is_teardown (Send cmd params) = False"
| "is_teardown (Debug msg) = False"

definition teardown_calls_since :: "nat \<Rightarrow> chrome \<Rightarrow> ext_call list" where
  "teardown_calls_since n self = filter is_teardown (drop n (trace self))"

text \<open>The teardown call a handle receives: one call when it is live, none otherwise.\<close>

definition call_if_live :: "attr \<Rightarrow> ext_call \<Rightarrow> ext_call list" where
  "call_if_live handle call = (if handle = Live then [call] else [])"

section \<open>Evaluating JavaScript\<close>

text \<open>The browser is a function from the expression of a \<^verbatim>\<open>Runtime.evaluate\<close> command to the
  decoded response (\<open>JNull\<close> when the connection returns \<^verbatim>\<open>None\<close>).\<close>

type_synonym browser = "string \<Rightarrow> json"

text \<open>The part of \<^verbatim>\<open>_js_runtime_evaluate\<close> after the command: the four checks and the
  final subscript.\<close>

definition read_evaluate_result :: "json \<Rightarrow> exn + json" where
  "read_evaluate_result result =
     (if result = JNull then Inr JNull
      else case py_in ''result'' result of
        Inl e \<Rightarrow> Inl e
      | Inr has_result \<Rightarrow>
          if \<not> has_result then Inr JNull
          else (case py_getitem result ''result'' of
             Inl e \<Rightarrow> Inl e
           | Inr outer \<Rightarrow>
              (case py_in ''result'' outer of
                 Inl e \<Rightarrow> Inl e
               | Inr has_inner \<Rightarrow>
                   if \<not> has_inner then Inr JNull
                   else (case py_getitem outer ''result'' of
                      Inl e \<Rightarrow> Inl e
                    | Inr inner \<Rightarrow>
                       (case py_in ''value'' inner of
                          Inl e \<Rightarrow> Inl e
                        | Inr has_value \<Rightarrow>
                            if \<not> has_value then Inr JNull
                            else py_getitem inner ''value'')))))"

definition js_runtime_evaluate :: "browser \<Rightarrow> string \<Rightarrow> int \<Rightarrow> chrome \<Rightarrow> (exn + json) \<times> chrome" where
  "js_runtime_evaluate browser expression timeout self =
     (case conn_send ''Runtime.evaluate''
             [(''expression'', JStr expression),
              (''returnByValue'', JBool True),
              (''generatePreview'', JBool True),
              (''awaitPromise'', JBool True),
              (''timeout'', JInt (timeout * 1000))] self of
        (Some e, self') \<Rightarrow> (Inl e, self')
      | (None, self') \<Rightarrow> (read_evaluate_result (browser expression), self'))"

definition get_js_variable_value :: "browser \<Rightarrow> string \<Rightarrow> chrome \<Rightarrow> (exn + json) \<times> chrome" where
  "get_js_variable_value browser variable_name self =
     js_runtime_evaluate browser variable_name 5 self"

text \<open>\<^verbatim>\<open>d.get(key, default)\<close> and the truth value of a decoded value, as \<^verbatim>\<open>get_dom\<close> uses
  them. A value without a \<^verbatim>\<open>get\<close> method raises AttributeError.\<close>

fun py_get :: "json \<Rightarrow> string \<Rightarrow> json \<Rightarrow> exn + json" where
  "py_get (JObj kvs) k d = (case map_of kvs k of None \<Rightarrow> Inr d | Some v \<Rightarrow> Inr v)"
| "py_get (JList xs) k d = Inl AttributeError"
| "py_get (JStr s) k d = Inl AttributeError"
| "py_get JNull k d = Inl AttributeError"
| "py_get (JBool b) k d = Inl AttributeError"
| "py_get (JInt i) k d = Inl AttributeError"

fun py_bool :: "json \<Rightarrow> bool" where
  "py_bool JNull = False"
| "py_bool (JBool b) = b"
| "py_bool (JInt i) = (i \<noteq> 0)"
| "py_bool (JStr s) = (s \<noteq> [])"
| "py_bool (JList xs) = (xs \<noteq> [])"
| "py_bool (JObj kvs) = (kvs \<noteq> [])"

text \<open>\<^verbatim>\<open>x['a']['b']['c']\<close>, raising at the first subscript that fails.\<close>

fun py_getpath :: "json \<Rightarrow> string list \<Rightarrow> exn + json" where
  "py_getpath x [] = Inr x"
| "py_getpath x (k # ks) =
     (case py_getitem x k of Inl e \<Rightarrow> Inl e | Inr y \<Rightarrow> py_getpath y ks)"

text \<open>\<^verbatim>\<open>get_dom\<close>, the sibling of \<^verbatim>\<open>_js_runtime_evaluate\<close> that does look at
  \<^verbatim>\<open>exceptionDetails\<close>. It calls \<^verbatim>\<open>Runtime.evaluate\<close> with the expression only.\<close>

definition get_dom :: "browser \<Rightarrow> chrome \<Rightarrow> (exn + json) \<times> chrome" where
  "get_dom browser self =
     (case conn_send ''Runtime.evaluate''
             [(''expression'', JStr ''document.documentElement.outerHTML'')] self of
        (Some e, self') \<Rightarrow> (Inl e, self')
      | (None, self') \<Rightarrow>
          (let result = browser ''document.documentElement.outerHTML'' in
           if result = JNull then (Inr JNull, self')
           else (case py_get result ''result'' (JObj []) of
              Inl e \<Rightarrow> (Inl e, self')
            | Inr outer \<Rightarrow>
               (case py_get outer ''exceptionDetails'' (JObj []) of
                  Inl e \<Rightarrow> (Inl e, self')
                | Inr exception_details \<Rightarrow>
                    if py_bool exception_details then (Inr JNull, self')
                    else (py_getpath result [''result'', ''result'', ''value''], self')))))"

section \<open>Dispatching events\<close>

text \<open>\<^verbatim>\<open>EVENT_TYPE_RE = re.compile('[a-zA-Z.]+')\<close> and \<^verbatim>\<open>EVENT_TYPE_RE.match(s)\<close>:
  \<^verbatim>\<open>match\<close> looks for the pattern at the start of the string only, and the greedy
  \<^verbatim>\<open>+\<close> takes the longest run of characters of the class; there is no match when that
  run is empty. What follows the run is not looked at.\<close>

definition event_type_chars :: string where
  "event_type_chars = ''abcdefghijklmnopqrstuvwxyzABCDEFGHIJKLMNOPQRSTUVWXYZ.''"

definition EVENT_TYPE_RE_match :: "string \<Rightarrow> string option" where
  "EVENT_TYPE_RE_match s =
     (case takeWhile (\<lambda>c. c \<in> set event_type_chars) s of
        [] \<Rightarrow> None
      | c # cs \<Rightarrow> Some (c # cs))"

definition is_valid_event_type :: "string \<Rightarrow> bool" where
  "is_valid_event_type event_type = (EVENT_TYPE_RE_match event_type \<noteq> None)"

text \<open>\<^verbatim>\<open>text.replace('"', '\\"')\<close>: a backslash before every double quote.\<close>

definition escape_js_string :: "string \<Rightarrow> string" where
  "escape_js_string text =
     concat (map (\<lambda>c. if c = CHR 0x22 then [CHR 0x5C, CHR 0x22] else [c]) text)"

definition dispatch_js_event :: "browser \<Rightarrow> string \<Rightarrow> string \<Rightarrow> chrome \<Rightarrow> (exn + bool) \<times> chrome" where
  \<open>dispatch_js_event browser selector event_type self =
     (if \<not> is_valid_event_type event_type then (Inl AssertionError, self)
      else
        (let selector = escape_js_string selector;
             cmd = ''window._DOMAnalyzer.dispatchCustomEvent("'' @ selector @ ''", "''
                     @ event_type @ ''")''
         in case js_runtime_evaluate browser cmd 5 self of
              (Inl e, self') \<Rightarrow> (Inl e, self')
            | (Inr result, self') \<Rightarrow>
                if result = JNull then
                  (Inl (EventTimeout ''The event execution timed out''), self')
                else if result = JBool False then
                  (Inl (EventException ''The event was not run''), self')
                else (Inr True, self')))\<close>

section \<open>Event listener records\<close>

text \<open>\<^verbatim>\<open>EventListener\<close> wraps the decoded value it is given, normally a dict.\<close>

datatype event_listener = EventListener (event_as_dict: json)

text \<open>\<^verbatim>\<open>len(x)\<close> of a decoded value.\<close>

fun py_len :: "json \<Rightarrow> exn + nat" where
  "py_len (JObj kvs) = Inr (length kvs)"
| "py_len (JList xs) = Inr (length xs)"
| "py_len (JStr s) = Inr (length s)"
| "py_len JNull = Inl TypeError"
| "py_len (JBool b) = Inl TypeError"
| "py_len (JInt i) = Inl TypeError"

text \<open>\<^verbatim>\<open>EventListener.get(item)\<close> is \<^verbatim>\<open>dict.get(item)\<close>: \<^verbatim>\<open>None\<close> for a missing key.\<close>

definition event_listener_get :: "event_listener \<Rightarrow> string \<Rightarrow> exn + json" where
  "event_listener_get self item = py_get (event_as_dict self) item JNull"

definition event_listener_len :: "event_listener \<Rightarrow> exn + nat" where
  "event_listener_len self = py_len (event_as_dict self)"

text \<open>The loop of \<^verbatim>\<open>__eq__\<close> over the items of \<^verbatim>\<open>self\<close>, in iteration order.\<close>

fun eq_items :: "(string \<times> json) list \<Rightarrow> event_listener \<Rightarrow> exn + bool" where
  "eq_items [] other = Inr True"
| "eq_items ((key, val) # items) other =
     (case event_listener_get other key of
        Inl e \<Rightarrow> Inl e
      | Inr other_value \<Rightarrow>
          if \<not> py_eq val other_value then Inr False
          else eq_items items other)"

text \<open>\<^verbatim>\<open>iteritems\<close> exists on dicts only.\<close>

fun py_iteritems :: "json \<Rightarrow> exn + (string \<times> json) list" where
  "py_iteritems (JObj kvs) = Inr kvs"
| "py_iteritems (JList xs) = Inl AttributeError"
| "py_iteritems (JStr s) = Inl AttributeError"
| "py_iteritems JNull = Inl AttributeError"
| "py_iteritems (JBool b) = Inl AttributeError"
| "py_iteritems (JInt i) = Inl AttributeError"

definition event_listener_eq :: "event_listener \<Rightarrow> event_listener \<Rightarrow> exn + bool" where
  "event_listener_eq self other =
     (case event_listener_len other of
        Inl e \<Rightarrow> Inl e
      | Inr n_other \<Rightarrow>
         (case py_len (event_as_dict self) of
            Inl e \<Rightarrow> Inl e
          | Inr n_self \<Rightarrow>
              if n_other \<noteq> n_self then Inr False
              else (case py_iteritems (event_as_dict self) of
                      Inl e \<Rightarrow> Inl e
                    | Inr items \<Rightarrow> eq_items items other)))"

section \<open>Pagination\<close>

definition PAGINATION_PAGE_COUNT :: nat where
  "PAGINATION_PAGE_COUNT = 20"

text \<open>
  \<^verbatim>\<open>_paginate\<close>. A functor is called with an offset and a count and has effects
  on some state; it yields a page of items or raises. The functors of this file raise, if
  at all, before their first item. The loop need not end (a functor that always fills its
  page keeps it running), so a run that returns is \<open>Some\<close>. The result is the items
  yielded, the exception that ended the iteration if one did, and the state left
  behind. \<open>page_count\<close> is \<^verbatim>\<open>self.PAGINATION_PAGE_COUNT\<close>.
\<close>

partial_function (option) paginate_from ::
  "nat \<Rightarrow> (nat \<Rightarrow> nat \<Rightarrow> 'st \<Rightarrow> (exn + 'a list) \<times> 'st) \<Rightarrow> nat \<Rightarrow> 'st
     \<Rightarrow> (('a list \<times> exn option) \<times> 'st) option"
where
  "paginate_from page_count functor start st =
     (let r = functor start page_count st in
      case fst r of
        Inl e \<Rightarrow> Some (([], Some e), snd r)
      | Inr page \<Rightarrow>
          if length page < page_count then Some ((page, None), snd r)
          else Option.bind (paginate_from page_count functor (start + page_count) (snd r))
                 (\<lambda>rest. Some ((page @ fst (fst rest), snd (fst rest)), snd rest)))"

definition paginate ::
  "nat \<Rightarrow> (nat \<Rightarrow> nat \<Rightarrow> 'st \<Rightarrow> (exn + 'a list) \<times> 'st) \<Rightarrow> 'st
     \<Rightarrow> (('a list \<times> exn option) \<times> 'st) option" where
  "paginate page_count functor st = paginate_from page_count functor 0 st"

text \<open>A page-fetch function that serves a fixed dataset: the fetch at offset \<open>start\<close>
  returns the items in \<open>[start, min (start + count) N)\<close>. Its state is the list of the
  offsets it was called with.\<close>

definition fetch_from :: "'a list \<Rightarrow> nat \<Rightarrow> nat \<Rightarrow> nat list \<Rightarrow> (exn + 'a list) \<times> nat list" where
  "fetch_from data start cnt calls = (Inr (take cnt (drop start data)), calls @ [start])"

subsection \<open>The event listener fetches\<close>

text \<open>\<^verbatim>\<open>'%i' % n\<close>: the decimal digits, with a minus sign for a negative number.\<close>

fun digits_of_nat :: "nat \<Rightarrow> string" where
  "digits_of_nat n =
     (if n < 10 then [''0123456789'' ! n]
      else digits_of_nat (n div 10) @ [''0123456789'' ! (n mod 10)])"

definition format_int :: "int \<Rightarrow> string" where
  "format_int i = (if i < 0 then ''-'' @ digits_of_nat (nat (- i)) else digits_of_nat (nat i))"

text \<open>Iterating over a decoded value: the elements of a list, the keys of a dict, the
  characters of a string; anything else is not iterable.\<close>

fun py_iter :: "json \<Rightarrow> exn + json list" where
  "py_iter (JList xs) = Inr xs"
| "py_iter (JObj kvs) = Inr (map (\<lambda>kv. JStr (fst kv)) kvs)"
| "py_iter (JStr s) = Inr (map (\<lambda>c. JStr [c]) s)"
| "py_iter JNull = Inl TypeError"
| "py_iter (JBool b) = Inl TypeError"
| "py_iter (JInt i) = Inl TypeError"

text \<open>The expression a fetch evaluates. \<open>repr\<close> is Python's \<^verbatim>\<open>repr\<close> of a list of
  strings; a filter that is \<^verbatim>\<open>None\<close> counts as the empty list.\<close>

definition listeners_cmd ::
  "string \<Rightarrow> (string list \<Rightarrow> string) \<Rightarrow> string list option \<Rightarrow> string list option
     \<Rightarrow> int \<Rightarrow> int \<Rightarrow> string" where
  "listeners_cmd fname repr event_filter tag_name_filter start cnt =
     ''window._DOMAnalyzer.'' @ fname @ ''(''
       @ repr (case event_filter of None \<Rightarrow> [] | Some l \<Rightarrow> l) @ '', ''
       @ repr (case tag_name_filter of None \<Rightarrow> [] | Some l \<Rightarrow> l) @ '', ''
       @ format_int start @ '', '' @ format_int cnt @ '')''"

text \<open>The common body of \<^verbatim>\<open>get_js_event_listeners_paginated\<close> and
  \<^verbatim>\<open>get_html_event_listeners_paginated\<close>, which differ in the analyzer function only.\<close>

definition listeners_paginated ::
  "string \<Rightarrow> (string list \<Rightarrow> string) \<Rightarrow> browser \<Rightarrow> int \<Rightarrow> int
     \<Rightarrow> string list option \<Rightarrow> string list option \<Rightarrow> chrome
     \<Rightarrow> (exn + event_listener list) \<times> chrome" where
  "listeners_paginated fname repr browser start cnt event_filter tag_name_filter self =
     (case get_js_variable_value browser
             (listeners_cmd fname repr event_filter tag_name_filter start cnt) self of
        (Inl e, self') \<Rightarrow> (Inl e, self')
      | (Inr event_listeners, self') \<Rightarrow>
          if event_listeners = JNull then (Inr [], self')
          else (case py_iter event_listeners of
                  Inl e \<Rightarrow> (Inl e, self')
                | Inr xs \<Rightarrow> (Inr (map EventListener xs), self')))"

definition get_js_event_listeners_paginated ::
  "(string list \<Rightarrow> string) \<Rightarrow> browser \<Rightarrow> int \<Rightarrow> int
     \<Rightarrow> string list option \<Rightarrow> string list option \<Rightarrow> chrome
     \<Rightarrow> (exn + event_listener list) \<times> chrome" where
  "get_js_event_listeners_paginated = listeners_paginated ''getEventListeners''"

definition get_html_event_listeners_paginated ::
  "(string list \<Rightarrow> string) \<Rightarrow> browser \<Rightarrow> int \<Rightarrow> int
     \<Rightarrow> string list option \<Rightarrow> string list option \<Rightarrow> chrome
     \<Rightarrow> (exn + event_listener list) \<times> chrome" where
  "get_html_event_listeners_paginated = listeners_paginated ''getElementsWithEventHandlers''"

text \<open>\<^verbatim>\<open>get_js_event_listeners_iter\<close> and \<^verbatim>\<open>get_html_event_listeners_iter\<close>, consumed to
  the end.\<close>

definition get_js_event_listeners_iter ::
  "(string list \<Rightarrow> string) \<Rightarrow> browser \<Rightarrow> string list option \<Rightarrow> string list option
     \<Rightarrow> chrome \<Rightarrow> ((event_listener list \<times> exn option) \<times> chrome) option" where
  "get_js_event_listeners_iter repr browser event_filter tag_name_filter =
     paginate PAGINATION_PAGE_COUNT
       (\<lambda>start cnt. get_js_event_listeners_paginated repr browser (int start) (int cnt)
          event_filter tag_name_filter)"

definition get_html_event_listeners_iter ::
  "(string list \<Rightarrow> string) \<Rightarrow> browser \<Rightarrow> string list option \<Rightarrow> string list option
     \<Rightarrow> chrome \<Rightarrow> ((event_listener list \<times> exn option) \<times> chrome) option" where
  "get_html_event_listeners_iter repr browser event_filter tag_name_filter =
     paginate PAGINATION_PAGE_COUNT
       (\<lambda>start cnt. get_html_event_listeners_paginated repr browser (int start) (int cnt)
          event_filter tag_name_filter)"

section \<open>Example inputs\<close>

text \<open>More example messages and two example histories of a controller.\<close>

definition ev_request_will_be_sent :: json where
  "ev_request_will_be_sent =
     JObj [(''method'', JStr ''Network.requestWillBeSent''),
           (''params'', JObj [(''requestId'', JStr ''R1'')])]"

definition ev_command_response :: json where
  "ev_command_response = JObj [(''id'', JInt 7), (''result'', JObj [])]"

definition ev_lifecycle_without_name :: json where
  "ev_lifecycle_without_name =
     JObj [(''method'', JStr ''Page.lifecycleEvent''),
           (''params'', JObj [(''frameId'', JStr ''F1'')])]"

definition ev_lifecycle_without_params :: json where
  "ev_lifecycle_without_params = JObj [(''method'', JStr ''Page.lifecycleEvent'')]"

definition ev_lifecycle_null_params :: json where
  "ev_lifecycle_null_params =
     JObj [(''method'', JStr ''Page.lifecycleEvent''), (''params'', JNull)]"

definition first_page_loaded :: "operation list" where
  "first_page_loaded =
     [Event ev_navigation_scheduled, Event ev_execution_context_created,
      Event ev_frame_stopped_loading, Event ev_network_almost_idle]"

definition second_page_requested :: "operation list" where
  "second_page_requested = first_page_loaded @ [LoadUrl ''http://example.test/'']"

definition response_uncaught_42 :: json where
  "response_uncaught_42 =
     JObj [(''id'', JInt 3),
           (''result'',
              JObj [(''result'',
                       JObj [(''type'', JStr ''number''), (''value'', JInt 42),
                             (''description'', JStr ''42'')]),
                    (''exceptionDetails'',
                       JObj [(''exceptionId'', JInt 1), (''text'', JStr ''Uncaught''),
                             (''lineNumber'', JInt 0), (''columnNumber'', JInt 0)])])]"

definition response_true :: json where
  "response_true =
     JObj [(''id'', JInt 4),
           (''result'', JObj [(''result'', JObj [(''type'', JStr ''boolean''),
                                                 (''value'', JBool True)])])]"

definition injected_event_type :: string where
  \<open>injected_event_type = ''click");alert(1);("''\<close>

definition response_empty_list :: json where
  "response_empty_list =
     JObj [(''id'', JInt 5),
           (''result'', JObj [(''result'', JObj [(''type'', JStr ''object''),
                                                 (''value'', JList [])])])]"

definition click_listener :: json where
  "click_listener =
     JObj [(''event_type'', JStr ''click''), (''tag_name'', JStr ''div''),
           (''selector'', JStr ''#a'')]"

definition response_full_page :: json where
  "response_full_page =
     JObj [(''id'', JInt 6),
           (''result'', JObj [(''result'',
              JObj [(''type'', JStr ''object''),
                    (''value'', JList (replicate 20 click_listener))])])]"

definition repr_empty :: "string list \<Rightarrow> string" where
  "repr_empty l = ''[]''"

definition browser_fails_on_second_page :: browser where
  "browser_fails_on_second_page expression =
     (if expression = ''window._DOMAnalyzer.getEventListeners([], [], 0, 20)''
      then response_full_page else JNull)"

definition listener_with_null_handler :: event_listener where
  "listener_with_null_handler =
     EventListener (JObj [(''event_type'', JStr ''click''), (''selector'', JStr ''#a''),
                          (''handler'', JNull)])"

definition listener_with_tag_name :: event_listener where
  "listener_with_tag_name =
     EventListener (JObj [(''event_type'', JStr ''click''), (''selector'', JStr ''#a''),
                          (''tag_name'', JStr ''div'')])"

section \<open>Properties of the page state handler\<close>

lemma getitem_Inr_iff:
  "py_getitem m k = Inr v \<longleftrightarrow> (\<exists>kvs. m = JObj kvs \<and> map_of kvs k = Some v)"
  by (cases m) (auto split: option.splits)

lemma handler_navigation_scheduled:
  assumes "is_navigation_scheduled m"
  shows "page_state_handler m s =
     (None, s\<lparr>frame_scheduled_navigation := Some True,
              frame_stopped_loading_event := Some False,
              network_almost_idle_event := Some False,
              execution_context_created := Some False,
              page_state := PAGE_STATE_LOADING\<rparr>)"
  using assms
  by (auto simp: is_navigation_scheduled_def getitem_Inr_iff page_state_handler_def
      navigator_started_handler_def load_url_finished_handler_def check_all_received_def truthy_def)

lemma handler_frame_stopped_loading:
  assumes "is_frame_stopped_loading m"
  shows "page_state_handler m s =
     (None, check_all_received (s\<lparr>frame_scheduled_navigation := Some False,
              frame_stopped_loading_event := Some True\<rparr>))"
  using assms
  by (auto simp: is_frame_stopped_loading_def getitem_Inr_iff page_state_handler_def
      navigator_started_handler_def load_url_finished_handler_def)

lemma handler_network_almost_idle:
  assumes "is_network_almost_idle m"
  shows "page_state_handler m s =
     (None, check_all_received (s\<lparr>frame_scheduled_navigation := Some False,
              network_almost_idle_event := Some True\<rparr>))"
proof -
  from assms obtain kvs where m: "m = JObj kvs"
    and meth: "map_of kvs ''method'' = Some (JStr ''Page.lifecycleEvent'')"
    by (auto simp: is_network_almost_idle_def getitem_Inr_iff)
  from assms m obtain p where par: "map_of kvs ''params'' = Some p"
    and name: "py_getitem p ''name'' = Inr (JStr ''networkAlmostIdle'')"
    by (cases "map_of kvs ''params''") (simp_all add: is_network_almost_idle_def)
  from name obtain ps where p: "p = JObj ps"
    and nm: "map_of ps ''name'' = Some (JStr ''networkAlmostIdle'')"
    by (auto simp: getitem_Inr_iff)
  show ?thesis
    by (simp add: m meth par p nm page_state_handler_def navigator_started_handler_def
        load_url_finished_handler_def)
qed

lemma handler_execution_context_created:
  assumes "is_execution_context_created m"
  shows "page_state_handler m s =
     (None, check_all_received (s\<lparr>frame_scheduled_navigation := Some False,
              execution_context_created := Some True\<rparr>))"
proof -
  from assms obtain kvs where m: "m = JObj kvs"
    and meth: "map_of kvs ''method'' = Some (JStr ''Runtime.executionContextCreated'')"
    by (auto simp: is_execution_context_created_def getitem_Inr_iff)
  show ?thesis
    by (simp add: m meth page_state_handler_def navigator_started_handler_def
        load_url_finished_handler_def)
qed

lemma mset_three:
  "mset es = {#a, b, c#} \<longleftrightarrow>
     es \<in> {[a, b, c], [a, c, b], [b, a, c], [b, c, a], [c, a, b], [c, b, a]}"
proof
  assume h: "mset es = {#a, b, c#}"
  then have "length es = 3"
    by (metis length_Cons list.size(3) mset.simps(1) mset.simps(2) numeral_3_eq_3 size_mset)
  then obtain x y z where es: "es = [x, y, z]"
    by (auto simp: numeral_3_eq_3 length_Suc_conv)
  from h show "es \<in> {[a, b, c], [a, c, b], [b, a, c], [b, c, a], [c, a, b], [c, b, a]}"
    unfolding es by (auto simp: add_eq_conv_ex)
next
  assume "es \<in> {[a, b, c], [a, c, b], [b, a, c], [b, c, a], [c, a, b], [c, b, a]}"
  then show "mset es = {#a, b, c#}" by auto
qed


lemma three_events_after_navigation:
  assumes n: "is_navigation_scheduled n"
    and a: "is_frame_stopped_loading a"
    and b: "is_network_almost_idle b"
    and c: "is_execution_context_created c"
    and es: "es \<in> {[a, b, c], [a, c, b], [b, a, c], [b, c, a], [c, a, b], [c, b, a]}"
  shows "process_events (n # es) s = (None, loaded_after_navigation s)"
    and "page_state (snd (process_events [n] s)) = PAGE_STATE_LOADING"
    and "page_state (snd (process_events (n # take 1 es) s)) = PAGE_STATE_LOADING"
    and "page_state (snd (process_events (n # take 2 es) s)) = PAGE_STATE_LOADING"
  using es
  by (auto simp: handler_navigation_scheduled [OF n] handler_frame_stopped_loading [OF a]
      handler_network_almost_idle [OF b] handler_execution_context_created [OF c]
      check_all_received_def truthy_def loaded_after_navigation_def)

text \<open>
  Claim C1. After a navigation-scheduled event, let the three events frame-stopped-loading,
  lifecycle networkAlmostIdle and execution-context-created arrive in any of their six
  orders. No delivery raises; the page state is LOADED once the third has been processed
  and is not LOADED after none, one or two of them; and every order ends in the same
  state of the controller.
\<close>

theorem page_load_join_commutative:
  assumes n: "is_navigation_scheduled n"
    and a: "is_frame_stopped_loading a"
    and b: "is_network_almost_idle b"
    and c: "is_execution_context_created c"
    and es: "mset es = {#a, b, c#}"
  shows "fst (process_events (n # es) s) = None
       \<and> page_state (snd (process_events (n # es) s)) = PAGE_STATE_LOADED
       \<and> (\<forall>k<3. page_state (snd (process_events (n # take k es) s)) \<noteq> PAGE_STATE_LOADED)
       \<and> (\<forall>es'. mset es' = {#a, b, c#} \<longrightarrow>
            process_events (n # es') s = process_events (n # es) s)"
proof -
  from es have six: "es \<in> {[a, b, c], [a, c, b], [b, a, c], [b, c, a], [c, a, b], [c, b, a]}"
    by (simp only: mset_three)
  note ev = three_events_after_navigation [OF n a b c]
  have final: "process_events (n # es) s = (None, loaded_after_navigation s)"
    by (rule ev(1) [OF six])
  have "page_state (snd (process_events (n # take k es) s)) \<noteq> PAGE_STATE_LOADED" if "k < 3" for k
  proof -
    from that consider "k = 0" | "k = 1" | "k = 2" by linarith
    then show ?thesis
      using ev(2) [OF six, of s] ev(3) [OF six, of s] ev(4) [OF six, of s] by cases simp_all
  qed
  moreover have "process_events (n # es') s = process_events (n # es) s"
    if "mset es' = {#a, b, c#}" for es'
  proof -
    from that have "es' \<in> {[a, b, c], [a, c, b], [b, a, c], [b, c, a], [c, a, b], [c, b, a]}"
      by (simp only: mset_three)
    then show ?thesis using ev(1) final by simp
  qed
  ultimately show ?thesis using final by (simp add: loaded_after_navigation_def)
qed


theorem page_load_join_commutative_witness:
  "page_state (snd (process_events
       [ev_navigation_scheduled, ev_execution_context_created,
        ev_frame_stopped_loading, ev_network_almost_idle] new_chrome)) = PAGE_STATE_LOADED
   \<and> page_state (snd (process_events
       [ev_navigation_scheduled, ev_execution_context_created,
        ev_frame_stopped_loading] new_chrome)) \<noteq> PAGE_STATE_LOADED
   \<and> process_events
       [ev_navigation_scheduled, ev_network_almost_idle,
        ev_frame_stopped_loading, ev_execution_context_created] new_chrome
     = process_events
       [ev_navigation_scheduled, ev_execution_context_created,
        ev_frame_stopped_loading, ev_network_almost_idle] new_chrome"
proof -
  have n: "is_navigation_scheduled ev_navigation_scheduled"
    by (simp add: is_navigation_scheduled_def ev_navigation_scheduled_def)
  have a: "is_frame_stopped_loading ev_frame_stopped_loading"
    by (simp add: is_frame_stopped_loading_def ev_frame_stopped_loading_def)
  have b: "is_network_almost_idle ev_network_almost_idle"
    by (simp add: is_network_almost_idle_def ev_network_almost_idle_def)
  have c: "is_execution_context_created ev_execution_context_created"
    by (simp add: is_execution_context_created_def ev_execution_context_created_def)
  have es: "mset [ev_execution_context_created, ev_frame_stopped_loading, ev_network_almost_idle]
      = {#ev_frame_stopped_loading, ev_network_almost_idle, ev_execution_context_created#}"
    by simp
  have es': "mset [ev_network_almost_idle, ev_frame_stopped_loading, ev_execution_context_created]
      = {#ev_frame_stopped_loading, ev_network_almost_idle, ev_execution_context_created#}"
    by simp
  note inst = page_load_join_commutative [OF n a b c es, of new_chrome]
  have two: "2 < (3::nat)" by simp
  note loaded = inst [THEN conjunct2, THEN conjunct1]
  note before = inst [THEN conjunct2, THEN conjunct2, THEN conjunct1, THEN spec, THEN mp, OF two]
  note same = inst [THEN conjunct2, THEN conjunct2, THEN conjunct2, THEN spec, THEN mp, OF es']
  from before have "page_state (snd (process_events
       [ev_navigation_scheduled, ev_execution_context_created,
        ev_frame_stopped_loading] new_chrome)) \<noteq> PAGE_STATE_LOADED"
    by simp
  with loaded same show ?thesis by simp
qed

section \<open>Invariants of the page state\<close>














lemma new_chrome_consistent:
  "page_state new_chrome \<noteq> PAGE_STATE_LOADED" "\<not> all_received new_chrome"
  by (simp_all add: new_chrome_def all_received_def truthy_def)

lemma constructed_eq:
  "constructed = new_chrome\<lparr>proxy := Live, chrome_process := Live, chrome_conn := Live,
     trace :=
       [Send ''Security.setIgnoreCertificateErrors'' [(''ignore'', JBool True)],
        Send ''Page.setBypassCSP'' [(''enabled'', JBool False)],
        Send ''Page.setDownloadBehavior'' [(''behavior'', JStr ''deny'')],
        Send ''Page.addScriptToEvaluateOnNewDocument''
          [(''source'', JStr ''window._DOMAnalyzer = {};'')],
        SetDialogHandler,
        Send ''Page.enable'' [],
        Send ''Page.setLifecycleEventsEnabled'' [(''enabled'', JBool True)],
        Send ''Runtime.enable'' []]\<rparr>"
  by (simp add: constructed_def init_def set_chrome_settings_def conn_send_def
      set_dialog_handler_def new_chrome_def)

lemma constructed_consistent:
  "page_state constructed \<noteq> PAGE_STATE_LOADED" "\<not> all_received constructed"
  by (simp_all add: constructed_eq new_chrome_def all_received_def truthy_def)

lemma handle_example_events:
  "page_state_handler ev_navigation_scheduled s = (None, navigation_reset s)"
  "page_state_handler ev_execution_context_created s = (None, check_all_received (context_set s))"
  "page_state_handler ev_frame_stopped_loading s = (None, check_all_received (stopped_set s))"
  "page_state_handler ev_network_almost_idle s = (None, check_all_received (idle_set s))"
proof -
  have n: "is_navigation_scheduled ev_navigation_scheduled"
    by (simp add: is_navigation_scheduled_def ev_navigation_scheduled_def)
  have a: "is_frame_stopped_loading ev_frame_stopped_loading"
    by (simp add: is_frame_stopped_loading_def ev_frame_stopped_loading_def)
  have b: "is_network_almost_idle ev_network_almost_idle"
    by (simp add: is_network_almost_idle_def ev_network_almost_idle_def)
  have c: "is_execution_context_created ev_execution_context_created"
    by (simp add: is_execution_context_created_def ev_execution_context_created_def)
  show "page_state_handler ev_navigation_scheduled s = (None, navigation_reset s)"
    by (simp add: handler_navigation_scheduled [OF n] navigation_reset_def)
  show "page_state_handler ev_execution_context_created s
      = (None, check_all_received (context_set s))"
    by (simp add: handler_execution_context_created [OF c] context_set_def)
  show "page_state_handler ev_frame_stopped_loading s = (None, check_all_received (stopped_set s))"
    by (simp add: handler_frame_stopped_loading [OF a] stopped_set_def)
  show "page_state_handler ev_network_almost_idle s = (None, check_all_received (idle_set s))"
    by (simp add: handler_network_almost_idle [OF b] idle_set_def)
qed

lemma run_first_page_loaded:
  "run first_page_loaded s = loaded_after_navigation s"
  by (simp add: first_page_loaded_def handle_example_events navigation_reset_def
      context_set_def stopped_set_def idle_set_def check_all_received_def truthy_def
      loaded_after_navigation_def)

lemma run_append: "run (xs @ ys) s = run ys (run xs s)"
  by (induction xs arbitrary: s) simp_all

lemma run_second_page_requested:
  "page_state (run second_page_requested constructed) = PAGE_STATE_LOADING"
  "all_received (run second_page_requested constructed)"
  "fst (perform (LoadUrl ''http://example.test/'') (run first_page_loaded constructed)) = None"
  by (simp_all add: second_page_requested_def run_append run_first_page_loaded
      loaded_after_navigation_def load_url_def conn_send_def constructed_eq new_chrome_def
      all_received_def truthy_def)




section \<open>Messages without effect\<close>

lemma py_eq_JStr: "py_eq v (JStr x) \<longleftrightarrow> v = JStr x"
  by (cases v) auto

lemma handler_missing_method:
  assumes "missing_method m"
  shows "page_state_handler m s = (None, s)"
proof -
  from assms obtain kvs where m: "m = JObj kvs" and meth: "map_of kvs ''method'' = None"
    by (cases m) (simp_all add: missing_method_def)
  show ?thesis
    by (simp add: m meth page_state_handler_def navigator_started_handler_def
        load_url_finished_handler_def)
qed

lemma handler_lifecycle_missing:
  assumes "lifecycle_missing_params_or_name m"
  shows "page_state_handler m s = (None, s)"
proof -
  from assms obtain kvs where m: "m = JObj kvs"
    and meth: "map_of kvs ''method'' = Some (JStr ''Page.lifecycleEvent'')"
    by (cases m) (simp_all add: lifecycle_missing_params_or_name_def)
  show ?thesis
  proof (cases "map_of kvs ''params''")
    case None
    then show ?thesis
      by (simp add: m meth page_state_handler_def navigator_started_handler_def
          load_url_finished_handler_def)
  next
    case (Some p)
    with assms m obtain ps where p: "p = JObj ps" and name: "map_of ps ''name'' = None"
      by (cases p) (simp_all add: lifecycle_missing_params_or_name_def)
    with Some show ?thesis
      by (simp add: m meth page_state_handler_def navigator_started_handler_def
          load_url_finished_handler_def)
  qed
qed

text \<open>What the amended claim leaves out: when the \<^verbatim>\<open>params\<close> of a lifecycle event is not an
  object the controller is left as it was, but the membership test or the subscript of
  lines 294 and 297 may raise.\<close>

lemma handler_lifecycle_params_not_object:
  assumes "lifecycle_params_not_object m"
  shows "snd (page_state_handler m s) = s"
    and "fst (page_state_handler m s) =
      (case py_in ''name'' (case py_getitem m ''params'' of Inr p \<Rightarrow> p | Inl e \<Rightarrow> JNull) of
         Inl e \<Rightarrow> Some e
       | Inr has_name \<Rightarrow> if has_name then Some TypeError else None)"
proof -
  from assms obtain kvs where m: "m = JObj kvs"
    and meth: "map_of kvs ''method'' = Some (JStr ''Page.lifecycleEvent'')"
    by (cases m) (simp_all add: lifecycle_params_not_object_def)
  from assms m obtain p where par: "map_of kvs ''params'' = Some p"
    by (cases "map_of kvs ''params''") (simp_all add: lifecycle_params_not_object_def)
  from assms m par have nobj: "\<And>ps. p \<noteq> JObj ps"
    by (auto simp: lifecycle_params_not_object_def)
  show "snd (page_state_handler m s) = s"
    using nobj
    by (cases p; cases "py_in ''name'' p")
      (auto simp: m meth par page_state_handler_def navigator_started_handler_def
        load_url_finished_handler_def)
  show "fst (page_state_handler m s) =
      (case py_in ''name'' (case py_getitem m ''params'' of Inr p \<Rightarrow> p | Inl e \<Rightarrow> JNull) of
         Inl e \<Rightarrow> Some e
       | Inr has_name \<Rightarrow> if has_name then Some TypeError else None)"
    using nobj
    by (cases p; cases "py_in ''name'' p")
      (auto simp: m meth par page_state_handler_def navigator_started_handler_def
        load_url_finished_handler_def)
qed

lemma handler_unrecognized_method:
  assumes "unrecognized_method m"
  shows "page_state_handler m s = (None, check_all_received s)"
proof -
  from assms obtain kvs v where m: "m = JObj kvs"
    and meth: "map_of kvs ''method'' = Some v"
    and v: "v \<notin> set recognized_methods"
    by (cases "py_getitem m ''method''")
      (auto simp: unrecognized_method_def getitem_Inr_iff)
  from v show ?thesis
    by (simp add: m meth page_state_handler_def navigator_started_handler_def
        load_url_finished_handler_def recognized_methods_def py_eq_JStr)
qed

lemma check_all_received_eq:
  "check_all_received s
     = s\<lparr>page_state := if all_received s then PAGE_STATE_LOADED else page_state s\<rparr>"
  by (simp add: check_all_received_def all_received_def)

text \<open>
  Claim C9, as amended. A message object without a method field, and a lifecycle event
  whose params field is absent or is an object without a name field, raise nothing and
  leave the controller as it was.
  A message with an unrecognized method raises nothing and leaves all four flags as they
  were; it passes through the final check of \<^verbatim>\<open>_load_url_finished_handler\<close>, so the page
  state becomes LOADED when all three flags are already true and is unchanged otherwise.
\<close>

theorem ignored_messages_amended:
  "(missing_method m \<or> lifecycle_missing_params_or_name m \<longrightarrow>
      page_state_handler m s = (None, s))
   \<and> (unrecognized_method m \<longrightarrow>
      page_state_handler m s =
        (None, s\<lparr>page_state := if all_received s then PAGE_STATE_LOADED else page_state s\<rparr>))"
  using handler_missing_method [of m s] handler_lifecycle_missing [of m s]
    handler_unrecognized_method [of m s] check_all_received_eq [of s]
  by auto

text \<open>
  The claim as stated fails twice. For an unrecognized method: after a finished load and
  a \<^verbatim>\<open>load_url\<close> the flags are still true, and a network event turns LOADING into LOADED.
  For a lifecycle event without a name: when its params is \<^verbatim>\<open>null\<close>, the test
  \<^verbatim>\<open>'name' not in message['params']\<close> raises TypeError.
\<close>

theorem ignored_messages_counterexample:
  "unrecognized_method ev_request_will_be_sent
   \<and> page_state (run second_page_requested constructed) = PAGE_STATE_LOADING
   \<and> page_state (snd (page_state_handler ev_request_will_be_sent
        (run second_page_requested constructed))) = PAGE_STATE_LOADED
   \<and> fst (page_state_handler ev_lifecycle_null_params constructed) = Some TypeError"
proof -
  have u: "unrecognized_method ev_request_will_be_sent"
    by (simp add: unrecognized_method_def ev_request_will_be_sent_def recognized_methods_def)
  have t: "fst (page_state_handler ev_lifecycle_null_params constructed) = Some TypeError"
    by (simp add: ev_lifecycle_null_params_def page_state_handler_def
        navigator_started_handler_def load_url_finished_handler_def)
  from handler_unrecognized_method [OF u] run_second_page_requested(1,2) show ?thesis
    using u t by (simp add: check_all_received_eq)
qed

theorem ignored_messages_amended_witness:
  "missing_method ev_command_response
   \<and> page_state_handler ev_command_response constructed = (None, constructed)
   \<and> lifecycle_missing_params_or_name ev_lifecycle_without_params
   \<and> page_state_handler ev_lifecycle_without_params constructed = (None, constructed)
   \<and> lifecycle_missing_params_or_name ev_lifecycle_without_name
   \<and> page_state_handler ev_lifecycle_without_name constructed = (None, constructed)
   \<and> unrecognized_method ev_request_will_be_sent
   \<and> page_state_handler ev_request_will_be_sent constructed = (None, constructed)"
proof -
  have a: "missing_method ev_command_response"
    by (simp add: missing_method_def ev_command_response_def)
  have b: "lifecycle_missing_params_or_name ev_lifecycle_without_name"
    by (simp add: lifecycle_missing_params_or_name_def ev_lifecycle_without_name_def)
  have b': "lifecycle_missing_params_or_name ev_lifecycle_without_params"
    by (simp add: lifecycle_missing_params_or_name_def ev_lifecycle_without_params_def)
  have c: "unrecognized_method ev_request_will_be_sent"
    by (simp add: unrecognized_method_def ev_request_will_be_sent_def recognized_methods_def)
  have d: "constructed\<lparr>page_state :=
      if all_received constructed then PAGE_STATE_LOADED else page_state constructed\<rparr>
      = constructed"
    by (simp add: constructed_consistent)
  from a b b' c d ignored_messages_amended [of ev_command_response constructed]
    ignored_messages_amended [of ev_lifecycle_without_name constructed]
    ignored_messages_amended [of ev_lifecycle_without_params constructed]
    ignored_messages_amended [of ev_request_will_be_sent constructed]
  show ?thesis by simp
qed

section \<open>Teardown is fault tolerant\<close>

lemma guarded_step_fields:
  "proxy (guarded_step h c r msg s) = proxy s"
  "chrome_conn (guarded_step h c r msg s) = chrome_conn s"
  "chrome_process (guarded_step h c r msg s) = chrome_process s"
  "page_state (guarded_step h c r msg s) = page_state s"
  by (cases h; cases r; simp add: guarded_step_def)+

lemma guarded_step_length:
  "n \<le> length (trace s) \<Longrightarrow> n \<le> length (trace (guarded_step h c r msg s))"
  by (cases h; cases r; simp add: guarded_step_def)

lemma guarded_step_calls:
  assumes "is_teardown c" and "n \<le> length (trace s)"
  shows "filter is_teardown (drop n (trace (guarded_step h c r msg s)))
     = filter is_teardown (drop n (trace s)) @ call_if_live h c"
  using assms by (cases h; cases r; simp add: guarded_step_def call_if_live_def)

lemma terminate_result:
  assumes "proxy s \<noteq> Unset" and "chrome_process s \<noteq> Unset"
  shows "fst (terminate r1 r2 r3 s) = None"
    and "proxy (snd (terminate r1 r2 r3 s)) = IsNone"
    and "chrome_process (snd (terminate r1 r2 r3 s)) = IsNone"
    and "chrome_conn (snd (terminate r1 r2 r3 s)) = IsNone"
    and "page_state (snd (terminate r1 r2 r3 s)) = PAGE_STATE_NONE"
  using assms by (simp_all add: terminate_def str_raises_def Let_def)

lemma terminate_calls:
  assumes "proxy s \<noteq> Unset" and "chrome_process s \<noteq> Unset"
  shows "teardown_calls_since (length (trace s)) (snd (terminate r1 r2 r3 s))
     = call_if_live (proxy s) ProxyStop @ call_if_live (chrome_conn s) ConnClose
       @ call_if_live (chrome_process s) ProcessTerminate"
  using assms
  by (simp add: terminate_def str_raises_def Let_def teardown_calls_since_def
      guarded_step_calls guarded_step_length guarded_step_fields)

text \<open>
  Claim C6, as amended. On a controller whose \<^verbatim>\<open>proxy\<close> and \<^verbatim>\<open>chrome_process\<close> attributes have
  been assigned (a constructed controller, one whose construction failed at the connection
  or later, or one already terminated), \<^verbatim>\<open>terminate\<close> raises nothing whatever the three
  teardown calls do, calls each live collaborator once in the order proxy, connection,
  process, and leaves the three handles \<^verbatim>\<open>None\<close> and the page state NONE. A second
  \<^verbatim>\<open>terminate\<close> raises nothing, calls no collaborator and leaves the same state.
\<close>

theorem terminate_amended:
  assumes "proxy s \<noteq> Unset" and "chrome_process s \<noteq> Unset"
  shows "let s' = snd (terminate r1 r2 r3 s); s'' = snd (terminate q1 q2 q3 s') in
     fst (terminate r1 r2 r3 s) = None
     \<and> proxy s' = IsNone \<and> chrome_conn s' = IsNone \<and> chrome_process s' = IsNone
     \<and> page_state s' = PAGE_STATE_NONE
     \<and> teardown_calls_since (length (trace s)) s'
         = call_if_live (proxy s) ProxyStop @ call_if_live (chrome_conn s) ConnClose
           @ call_if_live (chrome_process s) ProcessTerminate
     \<and> fst (terminate q1 q2 q3 s') = None
     \<and> proxy s'' = IsNone \<and> chrome_conn s'' = IsNone \<and> chrome_process s'' = IsNone
     \<and> page_state s'' = PAGE_STATE_NONE
     \<and> teardown_calls_since (length (trace s')) s'' = []"
proof -
  define s' where "s' = snd (terminate r1 r2 r3 s)"
  have h: "proxy s' = IsNone" "chrome_conn s' = IsNone" "chrome_process s' = IsNone"
    by (simp_all add: s'_def terminate_result [OF assms])
  then have h': "proxy s' \<noteq> Unset" "chrome_process s' \<noteq> Unset" by simp_all
  have "teardown_calls_since (length (trace s')) (snd (terminate q1 q2 q3 s')) = []"
    by (simp add: terminate_calls [OF h'] h call_if_live_def)
  then show ?thesis
    using terminate_result [OF assms, of r1 r2 r3] terminate_calls [OF assms, of r1 r2 r3]
      terminate_result [OF h', of q1 q2 q3]
    by (simp add: Let_def s'_def)
qed

text \<open>
  The claim as stated fails after a partial construction: when \<^verbatim>\<open>start_proxy\<close> or
  \<^verbatim>\<open>start_chrome_process\<close> raised, the attribute was never assigned, and the first line of
  \<^verbatim>\<open>terminate\<close>, outside every \<^verbatim>\<open>try\<close>, formats the object and raises AttributeError.
\<close>

theorem terminate_counterexample:
  "fst (init (Some (External ''the proxy did not start'')) None False ''x'')
     = Some (External ''the proxy did not start'')
   \<and> fst (terminate None None None
        (snd (init (Some (External ''the proxy did not start'')) None False ''x'')))
     = Some AttributeError
   \<and> fst (terminate None None None
        (snd (init None (Some (External ''chrome did not start'')) False ''x'')))
     = Some AttributeError"
  by (simp add: init_def terminate_def str_raises_def new_chrome_def)

theorem terminate_amended_witness:
  "proxy constructed \<noteq> Unset \<and> chrome_process constructed \<noteq> Unset
   \<and> fst (terminate (Some (External ''proxy stop failed'')) None
        (Some (External ''kill failed'')) constructed) = None
   \<and> teardown_calls_since (length (trace constructed))
        (snd (terminate (Some (External ''proxy stop failed'')) None
           (Some (External ''kill failed'')) constructed))
       = [ProxyStop, ConnClose, ProcessTerminate]
   \<and> chrome_conn (snd (terminate (Some (External ''proxy stop failed'')) None
           (Some (External ''kill failed'')) constructed)) = IsNone
   \<and> fst (terminate None None None
        (snd (terminate (Some (External ''proxy stop failed'')) None
           (Some (External ''kill failed'')) constructed))) = None"
proof -
  have a: "proxy constructed \<noteq> Unset" and b: "chrome_process constructed \<noteq> Unset"
    and c: "proxy constructed = Live" "chrome_conn constructed = Live"
      "chrome_process constructed = Live"
    by (simp_all add: constructed_eq)
  from terminate_amended [OF a b, of "Some (External ''proxy stop failed'')" None
      "Some (External ''kill failed'')" None None None] a b c
  show ?thesis by (simp add: Let_def call_if_live_def)
qed

section \<open>Baseline configuration\<close>

lemma init_trace:
  "init None None False source =
     (None, new_chrome\<lparr>proxy := Live, chrome_process := Live, chrome_conn := Live,
        trace :=
          [Send ''Security.setIgnoreCertificateErrors'' [(''ignore'', JBool True)],
           Send ''Page.setBypassCSP'' [(''enabled'', JBool False)],
           Send ''Page.setDownloadBehavior'' [(''behavior'', JStr ''deny'')],
           Send ''Page.addScriptToEvaluateOnNewDocument'' [(''source'', JStr source)],
           SetDialogHandler,
           Send ''Page.enable'' [],
           Send ''Page.setLifecycleEventsEnabled'' [(''enabled'', JBool True)],
           Send ''Runtime.enable'' []]\<rparr>)"
  by (simp add: init_def set_chrome_settings_def conn_send_def set_dialog_handler_def
      new_chrome_def)

text \<open>
  Claim C8 fails on the code. A construction that succeeds issues \<^verbatim>\<open>Page.setBypassCSP\<close> with
  \<^verbatim>\<open>enabled=False\<close>, under the comment \<^verbatim>\<open># Disable CSP\<close>: the bypass is switched off, so the
  browser goes on enforcing content security policies. The command with \<^verbatim>\<open>enabled=True\<close>
  is never issued.
\<close>

theorem construction_leaves_csp_enforced:
  "fst (init None None False source) = None
   \<and> Send ''Page.setBypassCSP'' [(''enabled'', JBool False)]
        \<in> set (trace (snd (init None None False source)))
   \<and> Send ''Page.setBypassCSP'' [(''enabled'', JBool True)]
        \<notin> set (trace (snd (init None None False source)))"
  by (simp add: init_trace)

section \<open>Evaluation results and event dispatch\<close>

lemma read_evaluate_result_no_result:
  "read_evaluate_result JNull = Inr JNull"
  "map_of kvs ''result'' = None \<Longrightarrow> read_evaluate_result (JObj kvs) = Inr JNull"
  "map_of kvs ''result'' = Some (JObj outer) \<Longrightarrow> map_of outer ''result'' = None
     \<Longrightarrow> read_evaluate_result (JObj kvs) = Inr JNull"
  "map_of kvs ''result'' = Some (JObj outer) \<Longrightarrow> map_of outer ''result'' = Some (JObj inner)
     \<Longrightarrow> map_of inner ''value'' = None \<Longrightarrow> read_evaluate_result (JObj kvs) = Inr JNull"
  by (simp_all add: read_evaluate_result_def)

lemma read_evaluate_result_value:
  "map_of kvs ''result'' = Some (JObj outer) \<Longrightarrow> map_of outer ''result'' = Some (JObj inner)
     \<Longrightarrow> map_of inner ''value'' = Some v \<Longrightarrow> read_evaluate_result (JObj kvs) = Inr v"
  by (simp add: read_evaluate_result_def)

text \<open>
  Claim C5 fails on the code for a JavaScript-side exception. When the expression throws
  a primitive, the browser answers with the thrown value as the result and with
  \<^verbatim>\<open>exceptionDetails\<close> beside it. \<^verbatim>\<open>_js_runtime_evaluate\<close> never looks at
  \<^verbatim>\<open>exceptionDetails\<close> and returns the thrown value 42 as if the evaluation had
  succeeded, where its docstring promises \<^verbatim>\<open>None\<close>; \<^verbatim>\<open>get_dom\<close>, given the same response,
  does return \<^verbatim>\<open>None\<close>.
\<close>

theorem js_exception_value_returned:
  "fst (js_runtime_evaluate (\<lambda>expression. response_uncaught_42) ''throw 42'' 5 constructed)
     = Inr (JInt 42)
   \<and> fst (get_dom (\<lambda>expression. response_uncaught_42) constructed) = Inr JNull"
  by (simp add: js_runtime_evaluate_def get_dom_def conn_send_def constructed_eq
      read_evaluate_result_def response_uncaught_42_def)

lemma is_valid_event_type_iff:
  "is_valid_event_type s \<longleftrightarrow> s \<noteq> [] \<and> hd s \<in> set event_type_chars"
  by (cases s) (simp_all add: is_valid_event_type_def EVENT_TYPE_RE_match_def)

lemma dispatch_js_event_rejected:
  "\<not> is_valid_event_type event_type \<Longrightarrow>
     dispatch_js_event browser selector event_type self = (Inl AssertionError, self)"
  by (simp add: dispatch_js_event_def)

lemma injected_valid: "is_valid_event_type injected_event_type"
  by (simp add: is_valid_event_type_iff injected_event_type_def event_type_chars_def)

lemma injected_not_in_grammar:
  "\<not> list_all (\<lambda>c. c \<in> set event_type_chars) injected_event_type"
  by (simp add: injected_event_type_def event_type_chars_def)

text \<open>
  Claim C2 fails on the code. \<^verbatim>\<open>re.match\<close> anchors the pattern at the start of the string
  only, so an event type is accepted as soon as its first character is a letter or a
  dot. The event type \<^verbatim>\<open>click");alert(1);("\<close> contains characters outside the
  grammar, passes the validation, and reaches the browser inside the generated
  expression.
\<close>

theorem event_type_checked_at_start_only:
  \<open>is_valid_event_type injected_event_type
   \<and> \<not> list_all (\<lambda>c. c \<in> set event_type_chars) injected_event_type
   \<and> dispatch_js_event (\<lambda>expression. response_true) ''a'' injected_event_type constructed
      = (Inr True,
         constructed\<lparr>trace := trace constructed @
           [Send ''Runtime.evaluate''
              [(''expression'',
                  JStr ''window._DOMAnalyzer.dispatchCustomEvent("a", "click");alert(1);("")''),
               (''returnByValue'', JBool True),
               (''generatePreview'', JBool True),
               (''awaitPromise'', JBool True),
               (''timeout'', JInt 5000)]]\<rparr>)\<close>
proof -
  have c: "chrome_conn constructed = Live" by (simp add: constructed_eq)
  have "dispatch_js_event (\<lambda>expression. response_true) ''a'' injected_event_type constructed
      = (Inr True,
         constructed\<lparr>trace := trace constructed @
           [Send ''Runtime.evaluate''
              [(''expression'',
                  JStr (''window._DOMAnalyzer.dispatchCustomEvent('' @ [CHR 0x22] @ ''a''
                    @ [CHR 0x22] @ '', '' @ [CHR 0x22] @ injected_event_type @ [CHR 0x22]
                    @ '')'')),
               (''returnByValue'', JBool True),
               (''generatePreview'', JBool True),
               (''awaitPromise'', JBool True),
               (''timeout'', JInt 5000)]]\<rparr>)"
    using injected_valid
    by (simp add: dispatch_js_event_def js_runtime_evaluate_def conn_send_def c
        read_evaluate_result_def response_true_def escape_js_string_def Let_def)
  then show ?thesis
    using injected_valid injected_not_in_grammar by (simp add: injected_event_type_def)
qed


section \<open>Pagination over a dataset\<close>

lemma paginate_from_short:
  assumes "fst (functor start P st) = Inr page" and "length page < P"
  shows "paginate_from P functor start st = Some ((page, None), snd (functor start P st))"
  using assms by (subst paginate_from.simps) (simp add: Let_def)

lemma paginate_from_full:
  assumes "fst (functor start P st) = Inr page" and "\<not> length page < P"
    and "paginate_from P functor (start + P) (snd (functor start P st)) = Some ((items, err), st')"
  shows "paginate_from P functor start st = Some ((page @ items, err), st')"
  using assms by (subst paginate_from.simps) (simp add: Let_def)

lemma paginate_from_raise:
  assumes "fst (functor start P st) = Inl e"
  shows "paginate_from P functor start st = Some (([], Some e), snd (functor start P st))"
  using assms by (subst paginate_from.simps) (simp add: Let_def)

lemma offsets_step:
  assumes "0 < P" and "P \<le> n"
  shows "map (\<lambda>i. s + i * P) [0..<n div P + 1]
     = s # map (\<lambda>i. (s + P) + i * P) [0..<(n - P) div P + 1]"
proof -
  from assms have d: "n div P = Suc ((n - P) div P)"
    by (simp add: le_div_geq)
  have "map (\<lambda>i. s + i * P) [0..<Suc (Suc ((n - P) div P))]
     = s # map (\<lambda>i. s + Suc i * P) [0..<Suc ((n - P) div P)]"
    by (subst map_upt_Suc) simp
  then show ?thesis by (simp add: d add.assoc)
qed

lemma paginate_from_fetch:
  assumes "0 < P"
  shows "paginate_from P (fetch_from data) s calls
     = Some ((drop s data, None),
             calls @ map (\<lambda>i. s + i * P) [0..<(length data - s) div P + 1])"
proof (induction "length data - s" arbitrary: s calls rule: less_induct)
  case less
  let ?page = "take P (drop s data)"
  have f: "fst (fetch_from data s P calls) = Inr ?page"
    "snd (fetch_from data s P calls) = calls @ [s]"
    by (simp_all add: fetch_from_def)
  show ?case
  proof (cases "length data - s < P")
    case True
    then have "length ?page < P" by simp
    from paginate_from_short [of "fetch_from data" s P calls, OF f(1) this] True
    show ?thesis by (simp add: f)
  next
    case False
    then have ge: "P \<le> length data - s" by simp
    with assms have "length data - (s + P) < length data - s" by simp
    from less [OF this, of "calls @ [s]"]
    have rec: "paginate_from P (fetch_from data) (s + P) (calls @ [s])
      = Some ((drop (s + P) data, None),
          (calls @ [s]) @ map (\<lambda>i. (s + P) + i * P) [0..<(length data - (s + P)) div P + 1])" .
    from ge have full: "\<not> length ?page < P" by simp
    have cat: "?page @ drop (s + P) data = drop s data"
      by (metis add.commute append_take_drop_id drop_drop)
    have "(length data - s) - P = length data - (s + P)" by simp
    with offsets_step [OF assms ge, of s]
    have offs: "map (\<lambda>i. s + i * P) [0..<(length data - s) div P + 1]
      = s # map (\<lambda>i. (s + P) + i * P) [0..<(length data - (s + P)) div P + 1]"
      by simp
    from paginate_from_full [of "fetch_from data" s P calls, OF f(1) full]
      rec f(2) cat offs
    show ?thesis by simp
  qed
qed

lemma ceiling_div:
  fixes P N :: nat
  assumes "0 < P"
  shows "(\<not> P dvd N \<longrightarrow> (N + P - 1) div P = N div P + 1)
     \<and> (P dvd N \<longrightarrow> (N + P - 1) div P = N div P)"
proof -
  define q r where "q = N div P" and "r = N mod P"
  have N: "N = q * P + r" and r: "r < P"
    using assms by (simp_all add: q_def r_def)
  have pos: "(N + P - 1) div P = q + 1" if "0 < r"
  proof -
    from that have "N + P - 1 = (r - 1) + (q + 1) * P" by (simp add: N)
    moreover from assms have "((r - 1) + (q + 1) * P) div P = (q + 1) + (r - 1) div P"
      by (intro div_mult_self1) simp
    moreover from r have "(r - 1) div P = 0" by simp
    ultimately show ?thesis by (simp only: add_0_right)
  qed
  have zero: "(N + P - 1) div P = q" if "r = 0"
  proof -
    from that assms have "N + P - 1 = (P - 1) + q * P" by (simp add: N)
    moreover from assms have "((P - 1) + q * P) div P = q + (P - 1) div P"
      by (intro div_mult_self1) simp
    moreover from assms have "(P - 1) div P = 0" by simp
    ultimately show ?thesis by (simp only: add_0_right)
  qed
  have "P dvd N \<longleftrightarrow> r = 0" by (simp add: r_def dvd_eq_mod_eq_0)
  with pos zero show ?thesis by (auto simp: q_def)
qed

text \<open>
  Claim C3. Let a dataset of \<open>N\<close> items be served in pages of size \<open>P > 0\<close>. The pagination
  loop returns; it yields exactly the items of the dataset, in order and once each; it
  fetches at the offsets \<open>0, P, 2P, \<dots>, (N div P) P\<close>, which is \<open>N div P + 1\<close> calls: the
  ceiling of \<open>N / P\<close>, written \<open>(N + P - 1) div P\<close>, when \<open>P\<close> does not divide \<open>N\<close>, and one
  call more than \<open>N / P\<close> when it does (also for \<open>N = 0\<close>). Every fetch before the last
  returns a full page and the last one returns fewer than \<open>P\<close> items.
\<close>

theorem pagination_yields_dataset:
  assumes "0 < P"
  shows "let N = length data; calls = map (\<lambda>i. i * P) [0..<N div P + 1] in
     paginate P (fetch_from data) [] = Some ((data, None), calls)
     \<and> length calls = N div P + 1
     \<and> (\<not> P dvd N \<longrightarrow> length calls = (N + P - 1) div P)
     \<and> (P dvd N \<longrightarrow> length calls = N div P + 1)
     \<and> (\<forall>i < N div P. length (take P (drop (i * P) data)) = P)
     \<and> length (take P (drop (N div P * P) data)) < P"
proof -
  have run: "paginate P (fetch_from data) []
      = Some ((data, None), map (\<lambda>i. i * P) [0..<length data div P + 1])"
    using paginate_from_fetch [OF assms, of data 0 "[]"] by (simp add: paginate_def)
  have full: "length (take P (drop (i * P) data)) = P" if "i < length data div P" for i
  proof -
    from that have "Suc i \<le> length data div P" by simp
    then have "Suc i * P \<le> length data div P * P" by (rule mult_le_mono1)
    also have "\<dots> \<le> length data" by simp
    finally show ?thesis by simp
  qed
  have "length data - length data div P * P = length data mod P"
    by (simp add: minus_div_mult_eq_mod)
  with assms have short: "length (take P (drop (length data div P * P) data)) < P"
    by simp
  from run full short ceiling_div [OF assms, of "length data"] show ?thesis
    by (simp add: Let_def)
qed

theorem pagination_yields_dataset_witness:
  "(0::nat) < PAGINATION_PAGE_COUNT
   \<and> paginate PAGINATION_PAGE_COUNT (fetch_from [1..<26]) []
       = Some (([1..<26], None), [0, 20])
   \<and> paginate PAGINATION_PAGE_COUNT (fetch_from [1..<41]) []
       = Some (([1..<41], None), [0, 20, 40])
   \<and> paginate PAGINATION_PAGE_COUNT (fetch_from ([] :: nat list)) []
       = Some (([], None), [0])"
proof -
  have p: "(0::nat) < 20" by simp
  have u: "[0..<2] = [0, 1]" "[0..<3] = [0, 1, 2]" "[0..<1] = [0]"
    by (simp_all add: upt_rec)
  from pagination_yields_dataset [OF p, of "[1..<26]"]
    pagination_yields_dataset [OF p, of "[1..<41]"]
    pagination_yields_dataset [OF p, of "[] :: nat list"]
  show ?thesis
    by (simp add: Let_def PAGINATION_PAGE_COUNT_def u)
qed


section \<open>A failed evaluation ends the pagination\<close>

lemma get_js_variable_value_live:
  "chrome_conn self = Live \<Longrightarrow>
     get_js_variable_value browser e self =
       (read_evaluate_result (browser e),
        self\<lparr>trace := trace self @
          [Send ''Runtime.evaluate''
             [(''expression'', JStr e), (''returnByValue'', JBool True),
              (''generatePreview'', JBool True), (''awaitPromise'', JBool True),
              (''timeout'', JInt 5000)]]\<rparr>)"
  by (simp add: get_js_variable_value_def js_runtime_evaluate_def conn_send_def)

lemma get_js_variable_value_not_live:
  "chrome_conn self \<noteq> Live \<Longrightarrow> get_js_variable_value browser e self = (Inl AttributeError, self)"
  by (cases "chrome_conn self")
    (simp_all add: get_js_variable_value_def js_runtime_evaluate_def conn_send_def)

lemma evaluated_imp_live:
  assumes "fst (get_js_variable_value browser e self) = Inr v"
  shows "chrome_conn self = Live" and "read_evaluate_result (browser e) = Inr v"
proof -
  show live: "chrome_conn self = Live"
    using assms get_js_variable_value_not_live [of self browser e] by (cases "chrome_conn self") auto
  from assms show "read_evaluate_result (browser e) = Inr v"
    by (simp add: get_js_variable_value_live [OF live])
qed

lemma get_js_variable_value_snd:
  "snd (get_js_variable_value browser' e self) = snd (get_js_variable_value browser e self)"
  by (cases "chrome_conn self = Live")
    (simp_all add: get_js_variable_value_live get_js_variable_value_not_live)

lemma listeners_paginated_none:
  assumes "fst (get_js_variable_value browser
      (listeners_cmd fname repr ef tf start cnt) self) = Inr JNull"
  shows "listeners_paginated fname repr browser start cnt ef tf self
     = (Inr [], snd (get_js_variable_value browser
          (listeners_cmd fname repr ef tf start cnt) self))"
  using assms
  by (cases "get_js_variable_value browser (listeners_cmd fname repr ef tf start cnt) self")
    (simp add: listeners_paginated_def)

lemma listeners_paginated_empty_list:
  assumes "fst (get_js_variable_value browser
      (listeners_cmd fname repr ef tf start cnt) self) = Inr (JList [])"
  shows "listeners_paginated fname repr browser start cnt ef tf self
     = (Inr [], snd (get_js_variable_value browser
          (listeners_cmd fname repr ef tf start cnt) self))"
  using assms
  by (cases "get_js_variable_value browser (listeners_cmd fname repr ef tf start cnt) self")
    (simp add: listeners_paginated_def)

text \<open>
  Claim C10. Take either event listener fetch (JavaScript listeners or HTML attribute
  handlers) and a fetch at offset \<open>start\<close> whose evaluation returns \<^verbatim>\<open>None\<close>. The fetch yields
  no item and raises nothing; the pagination loop takes the empty page for a short one
  and returns there; if the fetch before it had returned a full page, the iteration ends
  with the items yielded so far and no error; and the outcome is the same as with a
  browser that answers this fetch with an empty list, that is, with the end of the data.
\<close>

theorem failed_evaluation_ends_pagination:
  assumes which: "(fname, fetch) = (''getEventListeners'', get_js_event_listeners_paginated)
      \<or> (fname, fetch) = (''getElementsWithEventHandlers'', get_html_event_listeners_paginated)"
    and none: "fst (get_js_variable_value browser
        (listeners_cmd fname repr ef tf (int start) (int P)) self) = Inr JNull"
    and P: "0 < P"
  shows "let functor = (\<lambda>s c. fetch repr browser (int s) (int c) ef tf);
             cmd = listeners_cmd fname repr ef tf (int start) (int P);
             functor' = (\<lambda>s c. fetch repr (browser(cmd := response_empty_list))
                           (int s) (int c) ef tf)
         in fst (functor start P self) = Inr []
          \<and> paginate_from P functor start self = Some (([], None), snd (functor start P self))
          \<and> (\<forall>start0 self0 page.
                fst (functor start0 P self0) = Inr page \<and> length page = P
                \<and> snd (functor start0 P self0) = self \<and> start0 + P = start
                \<longrightarrow> paginate_from P functor start0 self0
                      = Some ((page, None), snd (functor start P self)))
          \<and> paginate_from P functor' start self = paginate_from P functor start self"
proof -
  define cmd where "cmd = listeners_cmd fname repr ef tf (int start) (int P)"
  define fn where "fn = (\<lambda>s c. fetch repr browser (int s) (int c) ef tf)"
  define fn2 where "fn2 = (\<lambda>s c. fetch repr (browser(cmd := response_empty_list))
      (int s) (int c) ef tf)"
  from which have fetch: "fetch = listeners_paginated fname"
    by (auto simp: get_js_event_listeners_paginated_def get_html_event_listeners_paginated_def)
  have here: "fn start P self
      = (Inr [], snd (get_js_variable_value browser cmd self))"
    using listeners_paginated_none [OF none]
    by (simp add: fn_def fetch cmd_def)
  have live: "chrome_conn self = Live"
    using evaluated_imp_live(1) [OF none] .
  have "fst (get_js_variable_value (browser(cmd := response_empty_list))
      (listeners_cmd fname repr ef tf (int start) (int P)) self) = Inr (JList [])"
    by (simp add: get_js_variable_value_live [OF live] cmd_def read_evaluate_result_def
        response_empty_list_def)
  from listeners_paginated_empty_list [OF this]
  have there: "fn2 start P self
      = (Inr [], snd (get_js_variable_value browser cmd self))"
    using get_js_variable_value_snd [of "browser(cmd := response_empty_list)" cmd self browser]
    by (simp add: fn2_def fetch cmd_def)
  have stop: "paginate_from P fn start self = Some (([], None), snd (fn start P self))"
    using paginate_from_short [of fn start P self "[]"] P by (simp add: here)
  have stop': "paginate_from P fn2 start self
      = Some (([], None), snd (fn start P self))"
    using paginate_from_short [of fn2 start P self "[]"] P by (simp add: here there)
  have mid: "paginate_from P fn start0 self0 = Some ((page, None), snd (fn start P self))"
    if "fst (fn start0 P self0) = Inr page" "length page = P"
      "snd (fn start0 P self0) = self" "start0 + P = start" for start0 self0 page
    using paginate_from_full [of fn start0 P self0 page "[]" None
        "snd (fn start P self)"] that stop
    by simp
  from here stop stop' mid show ?thesis
    unfolding Let_def fn_def [symmetric] cmd_def [symmetric] fn2_def [symmetric]
    by simp
qed

lemma example_cmds:
  "listeners_cmd ''getEventListeners'' repr_empty None None 0 20
     = ''window._DOMAnalyzer.getEventListeners([], [], 0, 20)''"
  "listeners_cmd ''getEventListeners'' repr_empty None None 20 20
     = ''window._DOMAnalyzer.getEventListeners([], [], 20, 20)''"
  by (simp_all add: listeners_cmd_def repr_empty_def format_int_def)

lemma example_first_page:
  "fst (get_js_event_listeners_paginated repr_empty browser_fails_on_second_page 0 20
        None None constructed) = Inr (replicate 20 (EventListener click_listener))"
  "chrome_conn (snd (get_js_event_listeners_paginated repr_empty browser_fails_on_second_page
        0 20 None None constructed)) = Live"
proof -
  have live: "chrome_conn constructed = Live" by (simp add: constructed_eq)
  have r: "read_evaluate_result response_full_page = Inr (JList (replicate 20 click_listener))"
    by (simp add: read_evaluate_result_def response_full_page_def)
  have "JList (replicate 20 click_listener) \<noteq> JNull" by simp
  then show "fst (get_js_event_listeners_paginated repr_empty browser_fails_on_second_page 0 20
        None None constructed) = Inr (replicate 20 (EventListener click_listener))"
    by (simp add: get_js_event_listeners_paginated_def listeners_paginated_def example_cmds
        get_js_variable_value_live [OF live] browser_fails_on_second_page_def r)
  show "chrome_conn (snd (get_js_event_listeners_paginated repr_empty
        browser_fails_on_second_page 0 20 None None constructed)) = Live"
    by (simp add: get_js_event_listeners_paginated_def listeners_paginated_def example_cmds
        get_js_variable_value_live [OF live] browser_fails_on_second_page_def r live)
qed

theorem failed_evaluation_ends_pagination_witness:
  "map_option fst (get_js_event_listeners_iter repr_empty browser_fails_on_second_page
       None None constructed)
     = Some (replicate 20 (EventListener click_listener), None)
   \<and> fst (get_js_event_listeners_paginated repr_empty browser_fails_on_second_page 20 20
        None None
        (snd (get_js_event_listeners_paginated repr_empty browser_fails_on_second_page 0 20
           None None constructed))) = Inr []"
proof -
  define self1 where "self1 = snd (get_js_event_listeners_paginated repr_empty
      browser_fails_on_second_page 0 20 None None constructed)"
  have live: "chrome_conn self1 = Live" by (simp add: self1_def example_first_page)
  have none: "fst (get_js_variable_value browser_fails_on_second_page
      (listeners_cmd ''getEventListeners'' repr_empty None None (int 20) (int 20)) self1)
      = Inr JNull"
    by (simp add: get_js_variable_value_live [OF live] example_cmds
        browser_fails_on_second_page_def read_evaluate_result_def)
  have p: "(0::nat) < 20" by simp
  note inst = failed_evaluation_ends_pagination
    [of "''getEventListeners''" get_js_event_listeners_paginated browser_fails_on_second_page
      repr_empty None None 20 20 self1, OF _ none p, unfolded Let_def]
  have w: "(''getEventListeners'', get_js_event_listeners_paginated)
      = (''getEventListeners'', get_js_event_listeners_paginated)
    \<or> (''getEventListeners'', get_js_event_listeners_paginated)
      = (''getElementsWithEventHandlers'', get_html_event_listeners_paginated)"
    by simp
  from inst [OF w] have a: "fst (get_js_event_listeners_paginated repr_empty
      browser_fails_on_second_page 20 20 None None self1) = Inr []"
    by simp
  from inst [OF w] have "paginate_from 20
       (\<lambda>s c. get_js_event_listeners_paginated repr_empty browser_fails_on_second_page
          (int s) (int c) None None) 0 constructed
     = Some ((replicate 20 (EventListener click_listener), None),
         snd (get_js_event_listeners_paginated repr_empty browser_fails_on_second_page
           (int 20) (int 20) None None self1))"
    using example_first_page(1) by (simp add: self1_def)
  then have b: "map_option fst (get_js_event_listeners_iter repr_empty
      browser_fails_on_second_page None None constructed)
     = Some (replicate 20 (EventListener click_listener), None)"
    by (simp add: get_js_event_listeners_iter_def paginate_def PAGINATION_PAGE_COUNT_def)
  from a b show ?thesis by (simp add: self1_def)
qed


section \<open>Equality of event listener records\<close>

lemma event_listener_eq_differing_count:
  "length a \<noteq> length b \<Longrightarrow>
     event_listener_eq (EventListener (JObj a)) (EventListener (JObj b)) = Inr False"
  by (auto simp: event_listener_eq_def event_listener_len_def)

text \<open>
  Claim C7 fails on the code: the equality is not symmetric. \<^verbatim>\<open>__eq__\<close> looks each field of
  \<^verbatim>\<open>self\<close> up in the other record with \<^verbatim>\<open>get\<close>, which answers \<^verbatim>\<open>None\<close> for a field the other
  record does not have. A record with a field that holds \<^verbatim>\<open>None\<close> therefore equals a
  record of the same size that lacks this field and has another one instead, but not the
  other way round.
\<close>

theorem event_listener_eq_not_symmetric:
  "event_listener_eq listener_with_null_handler listener_with_tag_name = Inr True
   \<and> event_listener_eq listener_with_tag_name listener_with_null_handler = Inr False"
  by (simp add: event_listener_eq_def event_listener_len_def event_listener_get_def
      listener_with_null_handler_def listener_with_tag_name_def)


end
